theory Spec2Isabelle
  imports Complex_Main "HOL-Library.Sublist" "HOL-Library.Char_ord" "HOL-Library.List_Lexorder"
    "HOL-Library.Multiset"
begin

section \<open>The dispatch engine of cfctl (pkg/transport/service.go)\<close>

text \<open>
  Go strings are byte sequences; they are modelled as \<^typ>\<open>string\<close> (lists of bytes).
  An \<^verbatim>\<open>error\<close> built by \<^verbatim>\<open>fmt.Errorf\<close> is modelled by its message, and a Go result pair
  \<^verbatim>\<open>(v, err)\<close> of which exactly one component is meaningful by a sum whose left injection
  carries the error message.
\<close>

type_synonym error = string

subsection \<open>Functions of the Go package \<^verbatim>\<open>strings\<close> used by the engine\<close>

definition strings_HasPrefix :: "string \<Rightarrow> string \<Rightarrow> bool" where
  "strings_HasPrefix s pre = prefix pre s"

definition strings_HasSuffix :: "string \<Rightarrow> string \<Rightarrow> bool" where
  "strings_HasSuffix s suf = suffix suf s"

definition strings_TrimPrefix :: "string \<Rightarrow> string \<Rightarrow> string" where
  "strings_TrimPrefix s pre = (if prefix pre s then drop (length pre) s else s)"

text \<open>\<^verbatim>\<open>strings.Index\<close>: the position of the first occurrence, or \<open>-1\<close>.\<close>

fun strings_Index :: "string \<Rightarrow> string \<Rightarrow> int" where
  "strings_Index [] substr = (if substr = [] then 0 else - 1)"
| "strings_Index (c # cs) substr =
     (if prefix substr (c # cs) then 0
      else (let i = strings_Index cs substr in if i < 0 then - 1 else i + 1))"

declare strings_Index.simps [simp del]

definition strings_Contains :: "string \<Rightarrow> string \<Rightarrow> bool" where
  "strings_Contains s substr = (0 \<le> strings_Index s substr)"

fun strings_Join :: "string list \<Rightarrow> string \<Rightarrow> string" where
  "strings_Join [] sep = []"
| "strings_Join [x] sep = x"
| "strings_Join (x # y # ys) sep = x @ sep @ strings_Join (y # ys) sep"


text \<open>
  \<^verbatim>\<open>strings.Split\<close> with a separator that is not empty, as \<^verbatim>\<open>genSplit\<close> computes it: cut at
  the first occurrence of the separator and go on with the rest. Every call of the engine
  passes a literal separator; for the empty separator Go cuts after each UTF-8 sequence,
  which is after each byte on ASCII text.
\<close>

function strings_Split :: "string \<Rightarrow> string \<Rightarrow> string list" where
  "strings_Split s sep =
     (if sep = [] then map (\<lambda>c. [c]) s
      else (let m = strings_Index s sep in
            if m < 0 then [s]
            else take (nat m) s # strings_Split (drop (nat m + length sep) s) sep))"
  by pat_completeness auto
termination
proof (relation "measure (\<lambda>(s, sep). length s)")
  show "wf (measure (\<lambda>(s, sep). length s))" by simp
next
  fix s sep :: string and m :: int
  assume sep: "sep \<noteq> []" and m: "m = strings_Index s sep" and pos: "\<not> m < 0"
  have "\<And>t. 0 \<le> strings_Index t sep \<Longrightarrow> nat (strings_Index t sep) + length sep \<le> length t"
  proof -
    fix t show "0 \<le> strings_Index t sep \<Longrightarrow> nat (strings_Index t sep) + length sep \<le> length t"
    proof (induction t)
      case Nil
      then show ?case by (simp add: strings_Index.simps split: if_splits)
    next
      case (Cons c cs)
      show ?case
      proof (cases "prefix sep (c # cs)")
        case True
        then show ?thesis using prefix_length_le [OF True] by (simp add: strings_Index.simps)
      next
        case False
        with Cons show ?thesis by (auto simp: strings_Index.simps Let_def split: if_splits)
      qed
    qed
  qed
  from this [of s] m pos sep have "nat m + length sep \<le> length s" "0 < length sep" by auto
  then show "((drop (nat m + length sep) s, sep), (s, sep)) \<in> measure (\<lambda>(s, sep). length s)"
    by (cases sep) auto
qed

declare strings_Split.simps [simp del]

text \<open>\<^verbatim>\<open>strings.SplitN\<close> for a count that is not negative and a separator that is not empty.\<close>

fun strings_SplitN :: "string \<Rightarrow> string \<Rightarrow> nat \<Rightarrow> string list" where
  "strings_SplitN s sep 0 = []"
| "strings_SplitN s sep (Suc 0) = [s]"
| "strings_SplitN s sep (Suc (Suc n)) =
     (let m = strings_Index s sep in
      if m < 0 then [s]
      else take (nat m) s # strings_SplitN (drop (nat m + length sep) s) sep (Suc n))"

subsection \<open>Data\<close>

text \<open>
  A decoded JSON or YAML document (\<^verbatim>\<open>interface{}\<close> holding \<^verbatim>\<open>nil\<close>, \<^verbatim>\<open>bool\<close>, \<^verbatim>\<open>float64\<close>,
  \<^verbatim>\<open>string\<close>, \<^verbatim>\<open>[]interface{}\<close> or \<^verbatim>\<open>map[string]interface{}\<close>). A number decoded from JSON
  is a finite \<^verbatim>\<open>float64\<close>; it is represented by the rational it denotes, on which \<^verbatim>\<open><\<close>
  agrees with the comparison of the floats. An object lists its members; \<^const>\<open>map_of\<close> looks
  a key up.
\<close>

datatype jvalue =
    JNull
  | JBool bool
  | JNumber rat
  | JString string
  | JArray "jvalue list"
  | JObject "(string \<times> jvalue) list"

text \<open>
  How a call ends: it returns, or the process exits with a status, or the goroutine
  panics, or it waits for ever for a key.
\<close>

datatype 'a outcome = Return 'a | Exit int | Panic string | Hangs

record Environment =
  Endpoint :: string
  Proxy :: string
  Token :: string

record Config =
  Environment :: string
  Environments :: "string \<rightharpoonup> Environment"

record FetchOptions =
  Parameters :: "string list"
  JSONParameter :: string
  FileParameter :: string
  APIVersion :: string
  OutputFormat :: string
  OutputFormatExplicit :: bool
  CopyToClipboard :: bool
  SortBy :: string
  MinimalColumns :: bool
  Columns :: string
  Rows :: int
  Page :: int
  PageSize :: int
  NoPaging :: bool

text \<open>
  What the stream delivers to one \<^verbatim>\<open>RecvMsg\<close> call: a message, given by the result of its
  \<^verbatim>\<open>MarshalJSON\<close>, or a failure other than \<^verbatim>\<open>io.EOF\<close>. The end of the list is \<^verbatim>\<open>io.EOF\<close>.
\<close>

datatype recv = Message "error + string" | Failure error

record stream =
  NewStream :: "error option"
  SendMsg :: "error option"
  CloseSend :: "error option"
  RecvMsg :: "recv list"

text \<open>
  A method descriptor of the reflected service, as far as the engine reads it:
  the two streaming flags and whether the request message of its input type accepts a
  JSON text (\<^verbatim>\<open>reqMsg.UnmarshalJSON\<close>).
\<close>

record MethodDescriptor =
  IsClientStreaming :: bool
  IsServerStreaming :: bool
  UnmarshalJSON :: "string \<Rightarrow> error option"

text \<open>
  How the interactive loop of \<^verbatim>\<open>printTable\<close> (lines 1101 to 1171) ends: the user quits or the
  keyboard fails, and the function returns the empty text; or the loop panics; or it
  waits for ever for a key. The loop draws pages and reads keys; it writes no option and
  calls neither \<^verbatim>\<open>os.Exit\<close> nor \<^verbatim>\<open>log.Fatalf\<close>.
\<close>

datatype session = Quits | Panics string | Waits

text \<open>
  The surroundings of one invocation: the answers of the operating system, of the
  libraries and of the packages \<^verbatim>\<open>configs\<close> and \<^verbatim>\<open>format\<close> of the repository, whose sources
  are not part of the two files modelled here. A connection is identified by the address
  that was dialled. \<open>sort_Slice_result\<close> is the content in which the library's
  \<^verbatim>\<open>sort.Slice\<close> leaves a slice for a comparison, or the message of the panic of a
  comparison that it made; \<open>pager\<close> is the course of the interactive loop for the results
  and the options at that moment. What is printed on the console is not modelled.
\<close>

record world =
  os_UserHomeDir :: "error + string"
  filepath_Join :: "string list \<Rightarrow> string"
  viper_ReadInConfig :: "string \<Rightarrow> error option"
  viper_GetString :: "string \<Rightarrow> string"
  os_ReadFile :: "string \<Rightarrow> error + string"
  strings_TrimSpace :: "string \<Rightarrow> string"
  format_ConvertServiceName :: "string \<Rightarrow> string"
  configs_GetAPIEndpoint :: "string \<Rightarrow> error + string"
  configs_GetIdentityEndpoint :: "string \<Rightarrow> error + string \<times> bool"
  configs_ListAliases :: "error + (string \<rightharpoonup> jvalue)"
  grpc_Dial :: "string \<Rightarrow> error option"
  refClient_ListServices :: "string \<Rightarrow> error + string list"
  refClient_ResolveService :: "string \<Rightarrow> string \<Rightarrow> error + (string \<rightharpoonup> MethodDescriptor)"
  conn_NewStream :: "string \<Rightarrow> string \<Rightarrow> string \<Rightarrow> stream"
  conn_Invoke :: "string \<Rightarrow> string \<Rightarrow> string \<Rightarrow> error + (error + string)"
  json_Marshal :: "(string \<rightharpoonup> jvalue) option \<Rightarrow> error + string"
  json_Unmarshal :: "string \<Rightarrow> jvalue option"
  json_Unmarshal_map :: "string \<Rightarrow> error + (string \<rightharpoonup> jvalue) option"
  yaml_Unmarshal_map :: "string \<Rightarrow> error + (string \<rightharpoonup> jvalue)"
  sort_Slice_result :: "(jvalue \<Rightarrow> jvalue \<Rightarrow> bool option) \<Rightarrow> jvalue list \<Rightarrow> string + jvalue list"
  json_MarshalIndent :: "(string \<rightharpoonup> jvalue) option \<Rightarrow> error + string"
  yaml_Encode :: "jvalue \<Rightarrow> error + string"
  yaml_Encode_map :: "(string \<rightharpoonup> jvalue) option \<Rightarrow> error + string"
  clipboard_WriteAll :: "string \<Rightarrow> error option"
  keyboard_Open :: "error option"
  pager :: "jvalue list \<Rightarrow> FetchOptions \<Rightarrow> session"

subsection \<open>Endpoint resolution (FetchService, lines 181 to 229; fetchJSONResponse, lines 496 to 555)\<close>

definition extractPortFromParts :: "string list \<Rightarrow> string" where
  "extractPortFromParts parts =
     (if length parts = 0 then '':443''
      else (let lastPart = parts ! (length parts - 1) in
            if strings_Contains lastPart '':'' then
              (let portParts = strings_Split lastPart '':'' in
               if length portParts = 2 then '':'' @ portParts ! 1 else '':443'')
            else '':443''))"

text \<open>
  The host derived from the gateway's own address when there is no identity service
  (lines 202 to 217 and 528 to 543). \<^verbatim>\<open>strings.Split\<close> never returns an empty slice, so the
  test \<^verbatim>\<open>len(domainParts) > 0\<close> holds; the other branch leaves \<^verbatim>\<open>hostPort\<close> empty.
\<close>

definition gatewayHostPort :: "world \<Rightarrow> string \<Rightarrow> string \<Rightarrow> error + string" where
  "gatewayHostPort w serviceName apiEndpoint =
     (let urlParts = strings_Split apiEndpoint ''//'' in
      if length urlParts \<noteq> 2 then Inl (''invalid API endpoint format: '' @ apiEndpoint)
      else
        (let domainParts = strings_Split (urlParts ! 1) ''.'' in
         if length domainParts > 0 then
           (let port = extractPortFromParts domainParts;
                n = length domainParts - 1;
                domainParts1 =
                  (if strings_Contains (domainParts ! n) '':''
                   then domainParts[n := strings_Split (domainParts ! n) '':'' ! 0]
                   else domainParts);
                domainParts2 = domainParts1[0 := format_ConvertServiceName w serviceName]
            in Inr (strings_Join domainParts2 ''.'' @ port))
         else Inr []))"

text \<open>The host derived from the address of the identity service (lines 219 to 227 and 546 to 554).\<close>

definition identityHostPort :: "world \<Rightarrow> string \<Rightarrow> string \<Rightarrow> error + string" where
  "identityHostPort w serviceName identityEndpoint =
     (let trimmedEndpoint = strings_TrimPrefix identityEndpoint ''grpc+ssl://'';
          parts = strings_Split trimmedEndpoint ''.''
      in if length parts < 4 then Inl (''invalid endpoint format: '' @ trimmedEndpoint)
         else Inr (strings_Join (parts[0 := format_ConvertServiceName w serviceName]) ''.''))"

text \<open>The host derived from a \<^verbatim>\<open>grpc+ssl\<close> endpoint of the configuration (lines 509 to 525).\<close>

definition directHostPort :: "world \<Rightarrow> string \<Rightarrow> string \<Rightarrow> error + string" where
  "directHostPort w serviceName configured =
     (let parts = strings_Split configured ''/'';
          endpoint = strings_Join (take (length parts - 1) parts) ''/'';
          parts2 = strings_Split endpoint ''://''
      in if length parts2 \<noteq> 2 then Inl (''invalid endpoint format: '' @ endpoint)
         else
           (let hostParts = strings_Split (parts2 ! 1) ''.'' in
            if length hostParts < 4 then Inl (''invalid endpoint format: '' @ endpoint)
            else Inr (strings_Join (hostParts[0 := format_ConvertServiceName w serviceName]) ''.'')))"

text \<open>The address that fetchJSONResponse dials, from its parameters.\<close>

definition fetchJSONResponse_hostPort ::
  "world \<Rightarrow> string \<Rightarrow> string \<Rightarrow> string \<Rightarrow> string \<Rightarrow> bool \<Rightarrow> error + string" where
  "fetchJSONResponse_hostPort w configured serviceName apiEndpoint identityEndpoint hasIdentityService =
     (if strings_HasPrefix configured ''grpc://'' then Inr (strings_TrimPrefix configured ''grpc://'')
      else if \<not> hasIdentityService then
        (if strings_HasPrefix configured ''grpc+ssl://'' then directHostPort w serviceName configured
         else gatewayHostPort w serviceName apiEndpoint)
      else identityHostPort w serviceName identityEndpoint)"

text \<open>
  What FetchService resolves before it connects: the address to dial, and the API endpoint,
  the identity endpoint and the flag that it hands on to fetchJSONResponse. A failure of either lookup of package \<^verbatim>\<open>configs\<close> is
  printed and followed by \<^verbatim>\<open>os.Exit(1)\<close>; printing is not modelled.
\<close>

definition FetchService_hostPort ::
  "world \<Rightarrow> string \<Rightarrow> string \<Rightarrow> (error + string \<times> string \<times> string \<times> bool) outcome" where
  "FetchService_hostPort w configured serviceName =
     (if strings_HasPrefix configured ''grpc://'' then
        Return (Inr (strings_TrimPrefix configured ''grpc://'', [], [], False))
      else
     (case configs_GetAPIEndpoint w configured of
        Inl err \<Rightarrow> Exit 1
      | Inr apiEndpoint \<Rightarrow>
     (case configs_GetIdentityEndpoint w apiEndpoint of
        Inl err \<Rightarrow> Exit 1
      | Inr (identityEndpoint, hasIdentityService) \<Rightarrow>
     (case (if \<not> hasIdentityService then gatewayHostPort w serviceName apiEndpoint
            else identityHostPort w serviceName identityEndpoint) of
        Inl err \<Rightarrow> Return (Inl err)
      | Inr hostPort \<Rightarrow>
          Return (Inr (hostPort, apiEndpoint, identityEndpoint, hasIdentityService))))))"

subsection \<open>Server-streaming invocation (fetchJSONResponse, lines 623 to 668)\<close>

text \<open>The receive loop, with the accumulator \<^verbatim>\<open>allResponses\<close>.\<close>

fun recvLoop :: "recv list \<Rightarrow> string list \<Rightarrow> error + string list" where
  "recvLoop [] allResponses = Inr allResponses"
| "recvLoop (Failure e # rest) allResponses = Inl (''failed to receive response: '' @ e)"
| "recvLoop (Message (Inl e) # rest) allResponses = Inl (''failed to marshal response: '' @ e)"
| "recvLoop (Message (Inr jsonBytes) # rest) allResponses =
     recvLoop rest (allResponses @ [jsonBytes])"

definition combinedJSON :: "string list \<Rightarrow> string" where
  \<open>combinedJSON allResponses = ''{"results": ['' @ strings_Join allResponses '','' @ '']}''\<close>

definition serverStreaming :: "stream \<Rightarrow> error + string" where
  "serverStreaming st =
     (case NewStream st of
        Some e \<Rightarrow> Inl (''failed to create stream: '' @ e)
      | None \<Rightarrow>
     (case SendMsg st of
        Some e \<Rightarrow> Inl (''failed to send request message: '' @ e)
      | None \<Rightarrow>
     (case CloseSend st of
        Some e \<Rightarrow> Inl (''failed to close send: '' @ e)
      | None \<Rightarrow>
     (case recvLoop (RecvMsg st) [] of
        Inl e \<Rightarrow> Inl e
      | Inr allResponses \<Rightarrow>
          if length allResponses = 1 then Inr (allResponses ! 0)
          else Inr (combinedJSON allResponses)))))"

text \<open>A stream on which every step succeeds and that delivers the given messages.\<close>

definition delivers :: "string list \<Rightarrow> stream" where
  "delivers msgs =
     \<lparr>NewStream = None, SendMsg = None, CloseSend = None,
      RecvMsg = map (\<lambda>m. Message (Inr m)) msgs\<rparr>"

subsection \<open>Service discovery (discoverService, lines 801 to 821)\<close>

fun pluginScan :: "string list \<Rightarrow> string \<Rightarrow> string option" where
  "pluginScan [] resourceName = None"
| "pluginScan (service # services) resourceName =
     (if strings_Contains service ''.plugin.'' \<and> strings_HasSuffix service resourceName
      then Some service else pluginScan services resourceName)"

fun apiScan :: "string list \<Rightarrow> string \<Rightarrow> string \<Rightarrow> string option" where
  "apiScan [] serviceName resourceName = None"
| "apiScan (service # services) serviceName resourceName =
     (if strings_Contains service (''spaceone.api.'' @ serviceName) \<and>
         strings_HasSuffix service resourceName
      then Some service else apiScan services serviceName resourceName)"

text \<open>The first argument is the result of \<^verbatim>\<open>refClient.ListServices()\<close>.\<close>

definition discoverService :: "error + string list \<Rightarrow> string \<Rightarrow> string \<Rightarrow> error + string" where
  "discoverService listServices serviceName resourceName =
     (case listServices of
        Inl err \<Rightarrow> Inl (''failed to list services: '' @ err)
      | Inr services \<Rightarrow>
     (case pluginScan services resourceName of
        Some service \<Rightarrow> Inr service
      | None \<Rightarrow>
     (case apiScan services serviceName resourceName of
        Some service \<Rightarrow> Inr service
      | None \<Rightarrow> Inl (''service not found for '' @ serviceName @ ''.'' @ resourceName))))"

text \<open>The two matching criteria, as the specification words them.\<close>

definition pluginMatch :: "string \<Rightarrow> string \<Rightarrow> bool" where
  "pluginMatch resourceName service =
     (strings_Contains service ''.plugin.'' \<and> strings_HasSuffix service resourceName)"

definition apiMatch :: "string \<Rightarrow> string \<Rightarrow> string \<Rightarrow> bool" where
  "apiMatch serviceName resourceName service =
     (strings_Contains service (''spaceone.api.'' @ serviceName) \<and>
      strings_HasSuffix service resourceName)"

subsection \<open>Parameter building (parseParameters, lines 744 to 799)\<close>

text \<open>
  The value of a \<^verbatim>\<open>key=value\<close> token: what \<^verbatim>\<open>json.Unmarshal\<close> decodes from the text, or the
  text itself when it is not JSON.
\<close>

definition inferValue :: "world \<Rightarrow> string \<Rightarrow> jvalue" where
  "inferValue w v = (case json_Unmarshal w v of Some jsonValue \<Rightarrow> jsonValue | None \<Rightarrow> JString v)"

text \<open>
  The loop over \<^verbatim>\<open>options.Parameters\<close>. The map \<^verbatim>\<open>parsed\<close> is \<^verbatim>\<open>nil\<close> (here \<^const>\<open>None\<close>) after
  \<^verbatim>\<open>json.Unmarshal\<close> has decoded the JSON text \<^verbatim>\<open>null\<close> into it, and an assignment to an entry
  of a \<^verbatim>\<open>nil\<close> map panics.
\<close>

fun parseTokens ::
  "world \<Rightarrow> string list \<Rightarrow> (string \<rightharpoonup> jvalue) option \<Rightarrow> (error + (string \<rightharpoonup> jvalue) option) outcome" where
  "parseTokens w [] parsed = Return (Inr parsed)"
| "parseTokens w (param # params) parsed =
     (let parts = strings_SplitN param ''='' 2 in
      if length parts \<noteq> 2 then Return (Inl ''invalid parameter format. Use key=value'')
      else
        (case parsed of
           None \<Rightarrow> Panic ''assignment to entry in nil map''
         | Some m \<Rightarrow> parseTokens w params (Some (m(parts ! 0 \<mapsto> inferValue w (parts ! 1))))))"

definition parseParameters ::
  "world \<Rightarrow> FetchOptions \<Rightarrow> (error + (string \<rightharpoonup> jvalue) option) outcome" where
  "parseParameters w options =
     (case (if FileParameter options \<noteq> [] then
              (case os_ReadFile w (FileParameter options) of
                 Inl err \<Rightarrow> Inl (''failed to read file parameter: '' @ err)
               | Inr data \<Rightarrow>
              (case yaml_Unmarshal_map w data of
                 Inl err \<Rightarrow> Inl (''failed to unmarshal YAML file: '' @ err)
               | Inr yamlData \<Rightarrow> Inr (Map.empty ++ yamlData)))
            else Inr Map.empty) of
        Inl err \<Rightarrow> Return (Inl err)
      | Inr parsed1 \<Rightarrow>
     (case (if JSONParameter options \<noteq> [] then
              (case json_Unmarshal_map w (JSONParameter options) of
                 Inl err \<Rightarrow> Inl (''failed to unmarshal JSON parameter: '' @ err)
               | Inr None \<Rightarrow> Inr None
               | Inr (Some obj) \<Rightarrow> Inr (Some (parsed1 ++ obj)))
            else Inr (Some parsed1)) of
        Inl err \<Rightarrow> Return (Inl err)
      | Inr parsed2 \<Rightarrow> parseTokens w (Parameters options) parsed2))"

text \<open>
  The text of the last token of the list whose key is \<open>key\<close>, if there is one: the reading
  of ``later tokens overwrite earlier ones'' against which the loop is compared.
\<close>

fun lastToken :: "string \<Rightarrow> string list \<Rightarrow> string option" where
  "lastToken key [] = None"
| "lastToken key (param # params) =
     (case lastToken key params of
        Some v \<Rightarrow> Some v
      | None \<Rightarrow>
          (let parts = strings_SplitN param ''='' 2 in
           if length parts = 2 \<and> parts ! 0 = key then Some (parts ! 1) else None))"

subsection \<open>Paging parameters (fetchJSONResponse, lines 490 to 494)\<close>

text \<open>\<^verbatim>\<open>fmt.Sprintf("%d", n)\<close>: the decimal digits, after a minus sign for a negative number.\<close>

fun digits :: "nat \<Rightarrow> string" where
  "digits n =
     (if n < 10 then [''0123456789'' ! n]
      else digits (n div 10) @ [''0123456789'' ! (n mod 10)])"

declare digits.simps [simp del]

definition Sprintf_d :: "int \<Rightarrow> string" where
  "Sprintf_d n = (if n < 0 then CHR ''-'' # digits (nat (- n)) else digits (nat n))"

definition pageParameters :: "string \<Rightarrow> FetchOptions \<Rightarrow> FetchOptions" where
  "pageParameters verb options =
     (if verb = ''list'' \<and> 0 < Page options then
        options\<lparr>Parameters := Parameters options @
          [''page='' @ Sprintf_d (Page options), ''page_size='' @ Sprintf_d (PageSize options)]\<rparr>
      else options)"

subsection \<open>Classification of a failed call (lines 301 to 312, 392 to 402 and 671 to 739)\<close>

definition extractParameterName :: "string \<Rightarrow> string" where
  "extractParameterName errMsg =
     (if strings_Contains errMsg ''Required parameter. (key = '' then
        (let start = strings_Index errMsg ''key = '' + 6;
             end = strings_Index (drop (nat start) errMsg) '')''
         in if end \<noteq> - 1 then take (nat end) (drop (nat start) errMsg) else [])
      else [])"

text \<open>
  The error that fetchJSONResponse returns when the unary call fails with the given status
  text, in the environment of the given name.
\<close>

definition invokeError :: "string \<Rightarrow> string \<Rightarrow> string \<Rightarrow> error" where
  "invokeError environment fullMethod status =
     (if strings_Contains status ''ERROR_AUTHENTICATE_FAILURE'' \<or>
         strings_Contains status ''Token is invalid or expired''
      then (if strings_HasSuffix environment ''-app'' then ''app token required''
            else ''authentication required'')
      else ''failed to invoke method '' @ fullMethod @ '': '' @ status)"

text \<open>
  The steps of a remote call that can fail with a status text, and the error that
  fetchJSONResponse returns for each: creating the stream, sending the request, closing
  the sending side and receiving a message in a server-streaming call (lines 630 to 652),
  and the unary call (lines 671 to 739).
\<close>

datatype step = Creating | Sending | Closing | Receiving | Invoking

definition remoteError :: "step \<Rightarrow> string \<Rightarrow> string \<Rightarrow> string \<Rightarrow> error" where
  "remoteError failing environment fullMethod status =
     (case failing of
        Creating \<Rightarrow> ''failed to create stream: '' @ status
      | Sending \<Rightarrow> ''failed to send request message: '' @ status
      | Closing \<Rightarrow> ''failed to close send: '' @ status
      | Receiving \<Rightarrow> ''failed to receive response: '' @ status
      | Invoking \<Rightarrow> invokeError environment fullMethod status)"

text \<open>The error that FetchService returns when fetchJSONResponse has failed with \<open>err\<close>.\<close>

definition FetchService_failure :: "error \<Rightarrow> error" where
  "FetchService_failure err =
     (if strings_Contains err ''ERROR_REQUIRED_PARAMETER'' then
        (let paramName = extractParameterName err in
         if paramName \<noteq> [] then ''missing required parameter: '' @ paramName else err)
      else err)"

subsection \<open>Configuration (loadConfig, lines 430 to 483)\<close>

definition loadConfig :: "world \<Rightarrow> error + Config" where
  "loadConfig w =
     (case os_UserHomeDir w of
        Inl err \<Rightarrow> Inl (''failed to get home directory: '' @ err)
      | Inr home \<Rightarrow>
     (case viper_ReadInConfig w (filepath_Join w [home, ''.cfctl'', ''setting.yaml'']) of
        Some err \<Rightarrow> Inl (''failed to read config file: '' @ err)
      | None \<Rightarrow>
     (let currentEnv = viper_GetString w ''environment'' in
      if currentEnv = [] then Inl ''no environment set in config''
      else
        (let envConfig =
               \<lparr>Endpoint = viper_GetString w (''environments.'' @ currentEnv @ ''.endpoint''),
                Proxy = viper_GetString w (''environments.'' @ currentEnv @ ''.proxy''),
                Token = viper_GetString w (''environments.'' @ currentEnv @ ''.token'')\<rparr>;
             envConfig1 =
               (if strings_HasSuffix currentEnv ''-user'' then
                  (case os_ReadFile w
                          (filepath_Join w [home, ''.cfctl'', ''cache'', currentEnv, ''access_token'']) of
                     Inr tokenBytes \<Rightarrow> envConfig\<lparr>Token := strings_TrimSpace w tokenBytes\<rparr>
                   | Inl err \<Rightarrow> envConfig)
                else if strings_HasSuffix currentEnv ''-app'' then
                  envConfig\<lparr>Token := viper_GetString w (''environments.'' @ currentEnv @ ''.token'')\<rparr>
                else if currentEnv = ''local'' then
                  envConfig\<lparr>Token := viper_GetString w (''environments.'' @ currentEnv @ ''.token'')\<rparr>
                else envConfig)
         in Inr \<lparr>Environment = currentEnv, Environments = [currentEnv \<mapsto> envConfig1]\<rparr>))))"

text \<open>
  \<^verbatim>\<open>config.Environments[config.Environment]\<close>: the entry of the map, or the zero value of the
  struct when the map has no such key.
\<close>

definition currentEnvironment :: "Config \<Rightarrow> Environment" where
  "currentEnvironment config =
     (case Environments config (Environment config) of
        Some e \<Rightarrow> e
      | None \<Rightarrow> \<lparr>Endpoint = [], Proxy = [], Token = []\<rparr>)"

subsection \<open>Alias expansion (FetchService, lines 260 to 298)\<close>

text \<open>
  The white space of \<^verbatim>\<open>unicode.IsSpace\<close> in UTF-8: tab, line feed, vertical tab, form feed,
  carriage return, space, U+0085, U+00A0, U+1680, U+2000 to U+200A, U+2028, U+2029,
  U+202F, U+205F and U+3000.
\<close>

definition whiteSpace :: "string list" where
  "whiteSpace =
     [[CHR 0x09], [CHR 0x0A], [CHR 0x0B], [CHR 0x0C], [CHR 0x0D], [CHR 0x20],
      [CHR 0xC2, CHR 0x85], [CHR 0xC2, CHR 0xA0],
      [CHR 0xE1, CHR 0x9A, CHR 0x80],
      [CHR 0xE2, CHR 0x80, CHR 0x80], [CHR 0xE2, CHR 0x80, CHR 0x81],
      [CHR 0xE2, CHR 0x80, CHR 0x82], [CHR 0xE2, CHR 0x80, CHR 0x83],
      [CHR 0xE2, CHR 0x80, CHR 0x84], [CHR 0xE2, CHR 0x80, CHR 0x85],
      [CHR 0xE2, CHR 0x80, CHR 0x86], [CHR 0xE2, CHR 0x80, CHR 0x87],
      [CHR 0xE2, CHR 0x80, CHR 0x88], [CHR 0xE2, CHR 0x80, CHR 0x89],
      [CHR 0xE2, CHR 0x80, CHR 0x8A],
      [CHR 0xE2, CHR 0x80, CHR 0xA8], [CHR 0xE2, CHR 0x80, CHR 0xA9],
      [CHR 0xE2, CHR 0x80, CHR 0xAF],
      [CHR 0xE2, CHR 0x81, CHR 0x9F],
      [CHR 0xE3, CHR 0x80, CHR 0x80]]"

text \<open>
  The number of bytes of the white-space rune with which a text starts, or \<open>0\<close>. None of
  the encodings is a prefix of another.
\<close>

definition spaceWidth :: "string \<Rightarrow> nat" where
  "spaceWidth s =
     (case find (\<lambda>space. prefix space s) whiteSpace of
        Some space \<Rightarrow> length space
      | None \<Rightarrow> 0)"

text \<open>
  \<^verbatim>\<open>strings.Fields\<close>: the maximal runs of bytes between white-space runes. Go decodes the
  text rune by rune; a sequence that is not valid UTF-8 counts as one rune that is no
  white space and is one byte wide, and the first byte of each encoding above is never
  the second, third or fourth byte of a rune. So the decoder meets each of these encodings
  wherever its bytes stand, and the fields can be read off byte by byte. The first
  argument is the field read so far.
\<close>

function fieldsFrom :: "string \<Rightarrow> string \<Rightarrow> string list" where
  "fieldsFrom current [] = (if current = [] then [] else [current])"
| "fieldsFrom current (c # cs) =
     (if 0 < spaceWidth (c # cs) then
        (if current = [] then fieldsFrom [] (drop (spaceWidth (c # cs)) (c # cs))
         else current # fieldsFrom [] (drop (spaceWidth (c # cs)) (c # cs)))
      else fieldsFrom (current @ [c]) cs)"
  by pat_completeness auto
termination
  by (relation "measure (\<lambda>(current, s). length s)") auto

definition strings_Fields :: "string \<Rightarrow> string list" where
  "strings_Fields s = fieldsFrom [] s"

text \<open>
  \<^verbatim>\<open>options\<close> is a pointer. It points to the struct of the caller, or to the struct that
  alias expansion allocates; the heap holds both structs. The second cell is written
  before it is read.
\<close>

datatype ref = CallerStruct | NewStruct

type_synonym heap = "ref \<Rightarrow> FetchOptions"

text \<open>The command that the alias table gives for a verb of a service, when it is a string.\<close>

definition aliasCommand :: "(string \<rightharpoonup> jvalue) \<Rightarrow> string \<Rightarrow> string \<Rightarrow> string option" where
  "aliasCommand aliases serviceName verb =
     (case aliases serviceName of
        Some (JObject serviceAliases) \<Rightarrow>
          (case map_of serviceAliases verb of Some (JString cmd) \<Rightarrow> Some cmd | _ \<Rightarrow> None)
      | _ \<Rightarrow> None)"

text \<open>The verb, the resource name, the pointer \<^verbatim>\<open>options\<close> and the heap after lines 266 to 298.\<close>

definition expandAlias ::
  "(string \<rightharpoonup> jvalue) \<Rightarrow> string \<Rightarrow> string \<Rightarrow> string \<Rightarrow> heap \<Rightarrow> string \<times> string \<times> ref \<times> heap" where
  "expandAlias aliases serviceName verb resourceName h =
     (case aliasCommand aliases serviceName verb of
        None \<Rightarrow> (verb, resourceName, CallerStruct, h)
      | Some cmd \<Rightarrow>
          (let parts = strings_Fields cmd in
           if length parts \<ge> 2 then
             (if parts ! 0 = ''list'' then
                (let h1 = (if \<not> OutputFormatExplicit (h CallerStruct)
                           then h(CallerStruct := (h CallerStruct)\<lparr>OutputFormat := ''table''\<rparr>)
                           else h);
                     newOptions =
                       \<lparr>Parameters = Parameters (h1 CallerStruct),
                        JSONParameter = JSONParameter (h1 CallerStruct),
                        FileParameter = FileParameter (h1 CallerStruct),
                        APIVersion = APIVersion (h1 CallerStruct),
                        OutputFormat = OutputFormat (h1 CallerStruct),
                        OutputFormatExplicit = OutputFormatExplicit (h1 CallerStruct),
                        CopyToClipboard = CopyToClipboard (h1 CallerStruct),
                        SortBy = [],
                        MinimalColumns = False,
                        Columns = [],
                        Rows = 0,
                        Page = 0,
                        PageSize = 15,
                        NoPaging = False\<rparr>
                 in (parts ! 0, parts ! 1, NewStruct, h1(NewStruct := newOptions)))
              else (parts ! 0, parts ! 1, CallerStruct, h))
           else (verb, resourceName, CallerStruct, h)))"

subsection \<open>The call (fetchJSONResponse, lines 485 to 742)\<close>

text \<open>Lines 584 to 741, on the connection to \<open>hostPort\<close>.\<close>

definition invoke ::
  "world \<Rightarrow> Config \<Rightarrow> string \<Rightarrow> string \<Rightarrow> string \<Rightarrow> string \<Rightarrow> FetchOptions \<Rightarrow> (error + string) outcome" where
  "invoke w config hostPort serviceName verb resourceName options =
     (case discoverService (refClient_ListServices w hostPort) serviceName resourceName of
        Inl err \<Rightarrow> Return (Inl (''failed to discover service: '' @ err))
      | Inr fullServiceName \<Rightarrow>
     (case refClient_ResolveService w hostPort fullServiceName of
        Inl err \<Rightarrow> Return (Inl (''failed to resolve service '' @ fullServiceName @ '': '' @ err))
      | Inr serviceDesc \<Rightarrow>
     (case serviceDesc verb of
        None \<Rightarrow> Return (Inl (''method not found: '' @ verb))
      | Some methodDesc \<Rightarrow>
     (case parseParameters w options of
        Exit n \<Rightarrow> Exit n
      | Panic msg \<Rightarrow> Panic msg
      | Hangs \<Rightarrow> Hangs
      | Return (Inl err) \<Rightarrow> Return (Inl err)
      | Return (Inr inputParams) \<Rightarrow>
     (case json_Marshal w inputParams of
        Inl err \<Rightarrow> Return (Inl (''failed to marshal input parameters to JSON: '' @ err))
      | Inr jsonBytes \<Rightarrow>
     (case UnmarshalJSON methodDesc jsonBytes of
        Some err \<Rightarrow> Return (Inl (''failed to unmarshal JSON into request message: '' @ err))
      | None \<Rightarrow>
          (let fullMethod = ''/'' @ fullServiceName @ ''/'' @ verb in
           if \<not> IsClientStreaming methodDesc \<and> IsServerStreaming methodDesc then
             Return (serverStreaming (conn_NewStream w hostPort fullMethod jsonBytes))
           else
             (case conn_Invoke w hostPort fullMethod jsonBytes of
                Inl err \<Rightarrow> Return (Inl (invokeError (Environment config) fullMethod err))
              | Inr respMsg \<Rightarrow> Return respMsg))))))))"

text \<open>
  fetchJSONResponse: the result, the heap after the call and the addresses it dialled.
\<close>

definition fetchJSONResponse ::
  "world \<Rightarrow> Config \<Rightarrow> string \<Rightarrow> string \<Rightarrow> string \<Rightarrow> ref \<Rightarrow> heap \<Rightarrow> string \<Rightarrow> string \<Rightarrow> bool \<Rightarrow>
   (error + string) outcome \<times> heap \<times> string list" where
  "fetchJSONResponse w config serviceName verb resourceName options h apiEndpoint identityEndpoint
       hasIdentityService =
     (let h1 = h(options := pageParameters verb (h options));
          configured = Endpoint (currentEnvironment config)
      in case fetchJSONResponse_hostPort w configured serviceName apiEndpoint identityEndpoint
                hasIdentityService of
           Inl err \<Rightarrow> (Return (Inl err), h1, [])
         | Inr hostPort \<Rightarrow>
             (case grpc_Dial w hostPort of
                Some err \<Rightarrow>
                  (Return (Inl (if strings_HasPrefix configured ''grpc://''
                                then ''connection failed: unable to connect to local server: '' @ err
                                else ''connection failed: unable to connect to '' @ hostPort @ '': '' @ err)),
                   h1, [hostPort])
              | None \<Rightarrow>
                  (invoke w config hostPort serviceName verb resourceName (h1 options), h1,
                   [hostPort])))"

subsection \<open>The sort of the results (FetchService, lines 322 to 355)\<close>

text \<open>
  The \<^verbatim>\<open>less\<close> function handed to \<^verbatim>\<open>sort.Slice\<close>, on two items of the results. A failed type
  assertion panics; that is the value \<^const>\<open>None\<close>. For a boolean the code returns
  \<^verbatim>\<open>v && !jVal.(bool)\<close>, which asserts the type of the second value only when \<open>v\<close> is true.
\<close>

definition sortLess :: "string \<Rightarrow> jvalue \<Rightarrow> jvalue \<Rightarrow> bool option" where
  "sortLess sortBy i j =
     (case i of
        JObject iMap \<Rightarrow>
          (case j of
             JObject jMap \<Rightarrow>
               (case map_of iMap sortBy of
                  None \<Rightarrow> Some False
                | Some iVal \<Rightarrow>
                    (case map_of jMap sortBy of
                       None \<Rightarrow> Some True
                     | Some jVal \<Rightarrow>
                         (case iVal of
                            JString v \<Rightarrow> (case jVal of JString u \<Rightarrow> Some (v < u) | _ \<Rightarrow> None)
                          | JNumber v \<Rightarrow> (case jVal of JNumber u \<Rightarrow> Some (v < u) | _ \<Rightarrow> None)
                          | JBool v \<Rightarrow>
                              (if v then (case jVal of JBool u \<Rightarrow> Some (\<not> u) | _ \<Rightarrow> None)
                               else Some False)
                          | _ \<Rightarrow> Some False)))
           | _ \<Rightarrow> None)
      | _ \<Rightarrow> None)"




subsection \<open>The results after the reply (FetchService, lines 320 to 384)\<close>

text \<open>\<^verbatim>\<open>respMap["results"].([]interface{})\<close>: the list under the key, when there is one.\<close>

definition resultsOf :: "(string \<rightharpoonup> jvalue) option \<Rightarrow> jvalue list option" where
  "resultsOf respMap =
     (case respMap of
        None \<Rightarrow> None
      | Some m \<Rightarrow> (case m ''results'' of Some (JArray results) \<Rightarrow> Some results | _ \<Rightarrow> None))"

definition setResults :: "(string \<rightharpoonup> jvalue) option \<Rightarrow> jvalue list \<Rightarrow> (string \<rightharpoonup> jvalue) option" where
  "setResults respMap results =
     (case respMap of None \<Rightarrow> None | Some m \<Rightarrow> Some (m(''results'' \<mapsto> JArray results)))"

text \<open>Lines 322 to 355. The left injection is the panic of a comparison.\<close>

definition FetchService_sort ::
  "world \<Rightarrow> string \<Rightarrow> FetchOptions \<Rightarrow> (string \<rightharpoonup> jvalue) option \<Rightarrow> string + (string \<rightharpoonup> jvalue) option" where
  "FetchService_sort w verb options respMap =
     (if SortBy options \<noteq> [] \<and> verb = ''list'' then
        (case resultsOf respMap of
           Some results \<Rightarrow>
             (case sort_Slice_result w (sortLess (SortBy options)) results of
                Inl msg \<Rightarrow> Inl msg
              | Inr results1 \<Rightarrow> Inr (setResults respMap results1))
         | None \<Rightarrow> Inr respMap)
      else Inr respMap)"

text \<open>Lines 357 to 363.\<close>

definition FetchService_rows ::
  "string \<Rightarrow> FetchOptions \<Rightarrow> (string \<rightharpoonup> jvalue) option \<Rightarrow> (string \<rightharpoonup> jvalue) option" where
  "FetchService_rows verb options respMap =
     (if 0 < Rows options \<and> verb = ''list'' then
        (case resultsOf respMap of
           Some results \<Rightarrow>
             (if int (length results) > Rows options
              then setResults respMap (take (nat (Rows options)) results)
              else respMap)
         | None \<Rightarrow> respMap)
      else respMap)"

text \<open>
  Lines 365 to 384. The entry of a result that is no object stays \<^verbatim>\<open>nil\<close>. A Go map has no
  order; the members of the filtered map are listed in the order of the columns.
\<close>

definition filteredMap :: "world \<Rightarrow> string list \<Rightarrow> jvalue \<Rightarrow> jvalue" where
  "filteredMap w columns result =
     (case result of
        JObject resultMap \<Rightarrow>
          JObject (List.map_filter
            (\<lambda>col. case map_of resultMap col of Some val \<Rightarrow> Some (col, val) | None \<Rightarrow> None)
            (remdups (map (strings_TrimSpace w) columns)))
      | _ \<Rightarrow> JNull)"

definition FetchService_columns ::
  "world \<Rightarrow> string \<Rightarrow> FetchOptions \<Rightarrow> (string \<rightharpoonup> jvalue) option \<Rightarrow> (string \<rightharpoonup> jvalue) option" where
  "FetchService_columns w verb options respMap =
     (if Columns options \<noteq> [] \<and> verb = ''list'' then
        (case resultsOf respMap of
           Some results \<Rightarrow>
             setResults respMap (map (filteredMap w (strings_Split (Columns options) '','')) results)
         | None \<Rightarrow> respMap)
      else respMap)"

subsection \<open>Presentation (printData, lines 912 to 969; printTable, lines 1047 to 1192)\<close>

text \<open>
  \<^verbatim>\<open>printYAMLDoc\<close> on each result in turn, with the separator before every document but the
  first. The left injection is the failure of the encoder, on which \<^verbatim>\<open>printYAMLDoc\<close> calls
  \<^verbatim>\<open>log.Fatalf\<close>.
\<close>

fun yamlDocs :: "world \<Rightarrow> jvalue list \<Rightarrow> string \<Rightarrow> bool \<Rightarrow> error + string" where
  "yamlDocs w [] sb first = Inr sb"
| "yamlDocs w (item # items) sb first =
     (case yaml_Encode w item of
        Inl err \<Rightarrow> Inl err
      | Inr doc \<Rightarrow> yamlDocs w items (sb @ (if first then [] else ''---'' @ [CHR 0x0A]) @ doc) False)"

text \<open>
  The text \<^verbatim>\<open>output\<close> of printData for a format other than \<^verbatim>\<open>table\<close> and \<^verbatim>\<open>csv\<close>, or the
  failure on which it calls \<^verbatim>\<open>log.Fatalf\<close>.
\<close>

definition rendered :: "world \<Rightarrow> string \<Rightarrow> (string \<rightharpoonup> jvalue) option \<Rightarrow> error + string" where
  "rendered w format data =
     (if format = ''json'' then json_MarshalIndent w data
      else if format = ''yaml'' then
        (case resultsOf data of
           Some results \<Rightarrow>
             (if 0 < length results then yamlDocs w results [] True else yaml_Encode_map w data)
         | None \<Rightarrow> yaml_Encode_map w data)
      else yaml_Encode_map w data)"

text \<open>
  printTable: the text it returns, which is always empty, and the heap after it. For a
  response with a list of results it first writes \<^verbatim>\<open>options.PageSize\<close> (lines 1050 to 1057).
\<close>

definition printTable ::
  "world \<Rightarrow> (string \<rightharpoonup> jvalue) option \<Rightarrow> ref \<Rightarrow> heap \<Rightarrow> string outcome \<times> heap" where
  "printTable w data options h =
     (case resultsOf data of
        Some results \<Rightarrow>
          (let h1 = (if \<not> NoPaging (h options) then
                       (if PageSize (h options) = 0
                        then h(options := (h options)\<lparr>PageSize := 15\<rparr>)
                        else h)
                     else h(options := (h options)\<lparr>PageSize := int (length results)\<rparr>))
           in case keyboard_Open w of
                Some err \<Rightarrow> (Return [], h1)
              | None \<Rightarrow>
                  (case pager w results (h1 options) of
                     Quits \<Rightarrow> (Return [], h1)
                   | Panics msg \<Rightarrow> (Panic msg, h1)
                   | Waits \<Rightarrow> (Hangs, h1)))
      | None \<Rightarrow> (Return [], h))"

text \<open>
  printData: how it ends and the heap after it. \<^verbatim>\<open>printCSV\<close> writes to the console and
  returns the empty text; \<^verbatim>\<open>log.Fatalf\<close> prints and calls \<^verbatim>\<open>os.Exit(1)\<close>.
\<close>

definition printData ::
  "world \<Rightarrow> (string \<rightharpoonup> jvalue) option \<Rightarrow> ref \<Rightarrow> heap \<Rightarrow> unit outcome \<times> heap" where
  "printData w data options h =
     (case (if OutputFormat (h options) = ''table'' then printTable w data options h
            else if OutputFormat (h options) = ''csv'' then (Return [], h)
            else (case rendered w (OutputFormat (h options)) data of
                    Inl err \<Rightarrow> (Exit 1, h)
                  | Inr marshalled \<Rightarrow> (Return marshalled, h))) of
        (Return output, h1) \<Rightarrow>
          (if CopyToClipboard (h1 options) \<and> output \<noteq> [] then
             (case clipboard_WriteAll w output of
                Some err \<Rightarrow> (Exit 1, h1)
              | None \<Rightarrow> (Return (), h1))
           else (Return (), h1))
      | (Exit n, h1) \<Rightarrow> (Exit n, h1)
      | (Panic msg, h1) \<Rightarrow> (Panic msg, h1)
      | (Hangs, h1) \<Rightarrow> (Hangs, h1))"

subsection \<open>FetchService (lines 67 to 390)\<close>

text \<open>
  One run: how the call ends, with the pair \<^verbatim>\<open>(map, error)\<close> that it returns; the struct of
  the caller at that moment; the addresses that were dialled, in order.
\<close>

record run =
  result :: "((string \<rightharpoonup> jvalue) option \<times> error option) outcome"
  callerOptions :: FetchOptions
  dialled :: "string list"

definition failed :: "error \<Rightarrow> FetchOptions \<Rightarrow> string list \<Rightarrow> run" where
  "failed err options dials =
     \<lparr>result = Return (None, Some err), callerOptions = options, dialled = dials\<rparr>"

text \<open>
  Lines 181 to 318, when the token is not empty: the run, if the call ends there, or else
  the decoded response with the verb, the pointer \<^verbatim>\<open>options\<close>, the heap and the addresses
  dialled.
\<close>

definition FetchService_response ::
  "world \<Rightarrow> Config \<Rightarrow> string \<Rightarrow> string \<Rightarrow> string \<Rightarrow> FetchOptions \<Rightarrow>
   run + (string \<rightharpoonup> jvalue) option \<times> string \<times> ref \<times> heap \<times> string list" where
  "FetchService_response w config serviceName verb resourceName options =
     (let configured = Endpoint (currentEnvironment config) in
      case FetchService_hostPort w configured serviceName of
        Exit n \<Rightarrow> Inl \<lparr>result = Exit n, callerOptions = options, dialled = []\<rparr>
      | Panic msg \<Rightarrow> Inl \<lparr>result = Panic msg, callerOptions = options, dialled = []\<rparr>
      | Hangs \<Rightarrow> Inl \<lparr>result = Hangs, callerOptions = options, dialled = []\<rparr>
      | Return (Inl err) \<Rightarrow> Inl (failed err options [])
      | Return (Inr (hostPort, apiEndpoint, identityEndpoint, hasIdentityService)) \<Rightarrow>
     (case grpc_Dial w hostPort of
        Some err \<Rightarrow>
          Inl (failed (if strings_HasPrefix configured ''grpc://''
                       then ''failed to connect to local server: '' @ err
                       else ''connection failed: '' @ err) options [hostPort])
      | None \<Rightarrow>
     (case configs_ListAliases w of
        Inl err \<Rightarrow> Inl (failed (''failed to load aliases: '' @ err) options [hostPort])
      | Inr aliases \<Rightarrow>
     (case expandAlias aliases serviceName verb resourceName (\<lambda>r. options) of
        (verb1, resourceName1, options1, h) \<Rightarrow>
     (case fetchJSONResponse w config serviceName verb1 resourceName1 options1 h apiEndpoint
             identityEndpoint hasIdentityService of
        (response, h1, dials) \<Rightarrow>
          (case response of
             Exit n \<Rightarrow>
               Inl \<lparr>result = Exit n, callerOptions = h1 CallerStruct, dialled = hostPort # dials\<rparr>
           | Panic msg \<Rightarrow>
               Inl \<lparr>result = Panic msg, callerOptions = h1 CallerStruct, dialled = hostPort # dials\<rparr>
           | Hangs \<Rightarrow>
               Inl \<lparr>result = Hangs, callerOptions = h1 CallerStruct, dialled = hostPort # dials\<rparr>
           | Return (Inl err) \<Rightarrow>
               Inl (failed (FetchService_failure err) (h1 CallerStruct) (hostPort # dials))
           | Return (Inr jsonBytes) \<Rightarrow>
               (case json_Unmarshal_map w jsonBytes of
                  Inl err \<Rightarrow>
                    Inl (failed (''failed to unmarshal JSON: '' @ err) (h1 CallerStruct)
                           (hostPort # dials))
                | Inr respMap \<Rightarrow> Inr (respMap, verb1, options1, h1, hostPort # dials))))))))"

text \<open>Lines 320 to 389, on the decoded response.\<close>

definition FetchService_present ::
  "world \<Rightarrow> (string \<rightharpoonup> jvalue) option \<Rightarrow> string \<Rightarrow> ref \<Rightarrow> heap \<Rightarrow> string list \<Rightarrow> run" where
  "FetchService_present w respMap verb options h dials =
     (if OutputFormat (h options) \<noteq> [] then
        (case FetchService_sort w verb (h options) respMap of
           Inl msg \<Rightarrow> \<lparr>result = Panic msg, callerOptions = h CallerStruct, dialled = dials\<rparr>
         | Inr respMap1 \<Rightarrow>
             (let respMap2 = FetchService_columns w verb (h options)
                               (FetchService_rows verb (h options) respMap1)
              in case printData w respMap2 options h of
                   (printed, h1) \<Rightarrow>
                     \<lparr>result =
                        (case printed of
                           Return u \<Rightarrow> Return (respMap2, None)
                         | Exit n \<Rightarrow> Exit n
                         | Panic msg \<Rightarrow> Panic msg
                         | Hangs \<Rightarrow> Hangs),
                      callerOptions = h1 CallerStruct,
                      dialled = dials\<rparr>))
      else \<lparr>result = Return (respMap, None), callerOptions = h CallerStruct, dialled = dials\<rparr>)"

text \<open>Lines 181 to 389: the token is not empty.\<close>

definition FetchService_call ::
  "world \<Rightarrow> Config \<Rightarrow> string \<Rightarrow> string \<Rightarrow> string \<Rightarrow> FetchOptions \<Rightarrow> run" where
  "FetchService_call w config serviceName verb resourceName options =
     (case FetchService_response w config serviceName verb resourceName options of
        Inl ended \<Rightarrow> ended
      | Inr (respMap, verb1, options1, h, dials) \<Rightarrow>
          FetchService_present w respMap verb1 options1 h dials)"

definition FetchService :: "world \<Rightarrow> string \<Rightarrow> string \<Rightarrow> string \<Rightarrow> FetchOptions \<Rightarrow> run" where
  \<open>FetchService w serviceName verb resourceName options =
     (case os_UserHomeDir w of
        Inl err \<Rightarrow> failed (''failed to get user home directory: '' @ err) options []
      | Inr homeDir \<Rightarrow>
     (case viper_ReadInConfig w (filepath_Join w [homeDir, ''.cfctl'', ''setting.yaml'']) of
        Some err \<Rightarrow>
          failed ''failed to read configuration file. Please run 'cfctl login' first'' options []
      | None \<Rightarrow>
     (if viper_GetString w ''environment'' = [] then
        failed ''no environment set. Please run 'cfctl login' first'' options []
      else
     (case loadConfig w of
        Inl err \<Rightarrow> failed (''failed to load config: '' @ err) options []
      | Inr config \<Rightarrow>
     (if Token (currentEnvironment config) = [] then
        \<lparr>result = Return (None, None), callerOptions = options, dialled = []\<rparr>
      else FetchService_call w config serviceName verb resourceName options)))))\<close>

subsection \<open>Conditions that the properties name\<close>


text \<open>The alias table loads and gives, for the verb of the service, a command that starts with \<^verbatim>\<open>list\<close>.\<close>

definition aliasedToList :: "world \<Rightarrow> string \<Rightarrow> string \<Rightarrow> bool" where
  "aliasedToList w serviceName verb =
     (case configs_ListAliases w of
        Inl err \<Rightarrow> False
      | Inr aliases \<Rightarrow>
          (case aliasCommand aliases serviceName verb of
             None \<Rightarrow> False
           | Some cmd \<Rightarrow> length (strings_Fields cmd) \<ge> 2 \<and> strings_Fields cmd ! 0 = ''list''))"

text \<open>
  The response and the options value with which FetchService calls printData, when it
  does: the configuration loads with a token, the lines 181 to 318 end with a decoded
  response, the output format is not empty and the sort does not panic.
\<close>

definition presented ::
  "world \<Rightarrow> string \<Rightarrow> string \<Rightarrow> string \<Rightarrow> FetchOptions \<Rightarrow>
   ((string \<rightharpoonup> jvalue) option \<times> FetchOptions) option" where
  "presented w serviceName verb resourceName options =
     (case loadConfig w of
        Inl err \<Rightarrow> None
      | Inr config \<Rightarrow>
          (if Token (currentEnvironment config) = [] then None
           else
             (case FetchService_response w config serviceName verb resourceName options of
                Inl ended \<Rightarrow> None
              | Inr (respMap, verb1, options1, h, dials) \<Rightarrow>
                  (if OutputFormat (h options1) = [] then None
                   else
                     (case FetchService_sort w verb1 (h options1) respMap of
                        Inl msg \<Rightarrow> None
                      | Inr respMap1 \<Rightarrow>
                          Some (FetchService_columns w verb1 (h options1)
                                  (FetchService_rows verb1 (h options1) respMap1),
                                h options1))))))"



subsection \<open>Examples\<close>

text \<open>
  Thirteen results that all have the name \<^verbatim>\<open>b\<close>, except the seventh, and one of the orders
  in which the contract of \<^verbatim>\<open>sort.Slice\<close> allows them to be after the sort by name. Go sorts
  twelve elements or fewer by insertion.
\<close>

definition item :: "string \<Rightarrow> nat \<Rightarrow> jvalue" where
  "item name n = JObject [(''name'', JString name), (''id'', JNumber (of_nat n))]"

definition listed :: "jvalue list" where
  "listed = map (\<lambda>n. item (if n = 6 then ''a'' else ''b'') n) [0..<13]"

definition reordered :: "jvalue list" where
  "reordered =
     map (\<lambda>n. item (if n = 6 then ''a'' else ''b'') n) [6, 3, 2, 0, 4, 5, 1, 7, 8, 9, 10, 11, 12]"

subsection \<open>A scenario\<close>

text \<open>
  The surroundings and the options of the examples: a user environment \<^verbatim>\<open>dev-user\<close> whose
  endpoint is the identity service of \<^verbatim>\<open>example.dev\<close>, a service \<^verbatim>\<open>identity\<close> with the alias
  \<^verbatim>\<open>ls\<close> for \<^verbatim>\<open>list User\<close>, decoders that know the few texts of the examples and a sort
  that knows the thirteen results. The canonical form of a service name is the name
  itself; the user quits the pager at once.
\<close>

definition example_world :: world where
  \<open>example_world =
     \<lparr>os_UserHomeDir = Inr ''/home/u'',
      filepath_Join = (\<lambda>parts. strings_Join parts ''/''),
      viper_ReadInConfig = (\<lambda>path. None),
      viper_GetString =
        (\<lambda>key. if key = ''environment'' then ''dev-user''
              else if key = ''environments.dev-user.endpoint''
                then ''grpc+ssl://identity.api.dev.example.dev:443''
              else []),
      os_ReadFile =
        (\<lambda>path. if path = ''/home/u/.cfctl/cache/dev-user/access_token'' then Inr ''secret''
               else if path = ''params.yaml'' then Inr ''name: file''
               else Inl ''no such file or directory''),
      strings_TrimSpace = (\<lambda>s. s),
      format_ConvertServiceName = (\<lambda>s. s),
      configs_GetAPIEndpoint = (\<lambda>endpoint. Inr endpoint),
      configs_GetIdentityEndpoint = (\<lambda>endpoint. Inr (endpoint, True)),
      configs_ListAliases = Inr [''identity'' \<mapsto> JObject [(''ls'', JString ''list User'')]],
      grpc_Dial = (\<lambda>address. None),
      refClient_ListServices = (\<lambda>address. Inr [''spaceone.api.identity.v2.User'']),
      refClient_ResolveService =
        (\<lambda>address name.
           Inr [''list'' \<mapsto> \<lparr>IsClientStreaming = False, IsServerStreaming = False,
                            UnmarshalJSON = (\<lambda>text. None)\<rparr>]),
      conn_NewStream = (\<lambda>address fullMethod request. delivers []),
      conn_Invoke = (\<lambda>address fullMethod request. Inr (Inr ''{"results": []}'')),
      json_Marshal = (\<lambda>params. Inr ''{}''),
      json_Unmarshal =
        (\<lambda>text. if text = ''3'' then Some (JNumber 3)
               else if text = ''50'' then Some (JNumber 50)
               else None),
      json_Unmarshal_map =
        (\<lambda>text. if text = ''{"results": []}'' then Inr (Some [''results'' \<mapsto> JArray []])
               else if text = ''{"name": "blob"}'' then Inr (Some [''name'' \<mapsto> JString ''blob''])
               else Inl ''invalid character''),
      yaml_Unmarshal_map =
        (\<lambda>text. if text = ''name: file'' then Inr [''name'' \<mapsto> JString ''file'']
               else Inl ''cannot unmarshal''),
      sort_Slice_result = (\<lambda>lessFn x. if x = listed then Inr reordered else Inr x),
      json_MarshalIndent = (\<lambda>data. Inr ''{}''),
      yaml_Encode = (\<lambda>item. Inr ''{}''),
      yaml_Encode_map = (\<lambda>data. Inr ''results: []''),
      clipboard_WriteAll = (\<lambda>output. None),
      keyboard_Open = None,
      pager = (\<lambda>results options. Quits)\<rparr>\<close>

definition example_options :: FetchOptions where
  \<open>example_options =
     \<lparr>Parameters = [], JSONParameter = [], FileParameter = [], APIVersion = [],
      OutputFormat = ''yaml'', OutputFormatExplicit = False, CopyToClipboard = False,
      SortBy = [], MinimalColumns = False, Columns = [], Rows = 0, Page = 0, PageSize = 0,
      NoPaging = False\<rparr>\<close>

section \<open>Properties\<close>

subsection \<open>Substring search\<close>

lemma strings_Index_lower: "- 1 \<le> strings_Index s substr"
  by (induction s) (auto simp: strings_Index.simps Let_def)

lemma strings_Index_upper:
  "0 \<le> strings_Index s substr \<Longrightarrow> nat (strings_Index s substr) + length substr \<le> length s"
proof (induction s)
  case Nil
  then show ?case by (simp add: strings_Index.simps split: if_splits)
next
  case (Cons c cs)
  show ?case
  proof (cases "prefix substr (c # cs)")
    case True
    then show ?thesis using prefix_length_le [OF True] by (simp add: strings_Index.simps)
  next
    case False
    with Cons show ?thesis by (auto simp: strings_Index.simps Let_def split: if_splits)
  qed
qed

lemma strings_Contains_append: "strings_Contains (pre @ substr @ post) substr"
  unfolding strings_Contains_def
proof (induction pre)
  case Nil
  have "prefix substr (substr @ post)" by simp
  then show ?case by (cases "substr @ post") (auto simp: strings_Index.simps)
next
  case (Cons c pre)
  then show ?case by (auto simp: strings_Index.simps Let_def)
qed

subsection \<open>Endpoint resolution\<close>

lemma strings_Index_char_absent: "c \<notin> set s \<Longrightarrow> strings_Index s [c] = - 1"
  by (induction s) (auto simp: strings_Index.simps Let_def)

lemma strings_Index_char_first:
  "c \<notin> set pre \<Longrightarrow> strings_Index (pre @ c # post) [c] = int (length pre)"
  by (induction pre) (auto simp: strings_Index.simps Let_def)

lemma strings_Split_Join:
  "labels \<noteq> [] \<Longrightarrow> \<forall>l \<in> set labels. c \<notin> set l \<Longrightarrow>
   strings_Split (strings_Join labels [c]) [c] = labels"
proof (induction labels "[c]" rule: strings_Join.induct)
  case 1
  then show ?case by simp
next
  case (2 x)
  then show ?case by (simp add: strings_Split.simps [of x] strings_Index_char_absent)
next
  case (3 x y ys)
  then have "strings_Split (strings_Join (y # ys) [c]) [c] = y # ys" by simp
  moreover have "strings_Index (x @ c # strings_Join (y # ys) [c]) [c] = int (length x)"
    using 3 by (simp add: strings_Index_char_first)
  ultimately show ?case
    by (simp add: strings_Split.simps [of "x @ c # strings_Join (y # ys) [c]"])
qed

lemma identityHostPort_labels:
  assumes "4 \<le> length labels" and "\<forall>l \<in> set labels. CHR ''.'' \<notin> set l"
  shows "identityHostPort w serviceName (''grpc+ssl://'' @ strings_Join labels ''.'') =
         Inr (strings_Join (format_ConvertServiceName w serviceName # tl labels) ''.'')"
proof -
  from assms(1) have ne: "labels \<noteq> []" by auto
  have trim: "strings_TrimPrefix (''grpc+ssl://'' @ strings_Join labels ''.'') ''grpc+ssl://'' =
        strings_Join labels ''.''"
    by (simp add: strings_TrimPrefix_def)
  have split: "strings_Split (strings_Join labels ''.'') ''.'' = labels"
    using strings_Split_Join [OF ne assms(2)] .
  from ne have upd: "labels[0 := format_ConvertServiceName w serviceName] =
        format_ConvertServiceName w serviceName # tl labels"
    by (cases labels) auto
  show ?thesis
    unfolding identityHostPort_def Let_def trim split upd using assms(1) by simp
qed

text \<open>
  The branch for an identity service (lines 219 to 227 and 546 to 554). When the identity
  lookup answers with a secure direct address \<^verbatim>\<open>grpc+ssl://l1.l2. ... .ln\<close> of at least four
  labels, the address that FetchService and fetchJSONResponse dial is the canonical form
  of the service name followed by the labels \<open>l2\<close> to \<open>ln\<close> unchanged; the port is part of the
  last label.
\<close>

lemma secure_address_first_label:
  assumes "4 \<le> length labels" and "\<forall>l \<in> set labels. CHR ''.'' \<notin> set l"
    and "\<not> strings_HasPrefix configured ''grpc://''"
    and "configs_GetAPIEndpoint w configured = Inr api"
    and "configs_GetIdentityEndpoint w api = Inr (''grpc+ssl://'' @ strings_Join labels ''.'', True)"
  shows "FetchService_hostPort w configured serviceName =
           Return (Inr (strings_Join (format_ConvertServiceName w serviceName # tl labels) ''.'',
                        api, ''grpc+ssl://'' @ strings_Join labels ''.'', True))
       \<and> fetchJSONResponse_hostPort w configured serviceName api
             (''grpc+ssl://'' @ strings_Join labels ''.'') True =
           Inr (strings_Join (format_ConvertServiceName w serviceName # tl labels) ''.'')"
  using assms(3-5) identityHostPort_labels [OF assms(1,2)]
  by (simp add: FetchService_hostPort_def fetchJSONResponse_hostPort_def)

text \<open>
  The scenario of the specification: the identity endpoint
  \<^verbatim>\<open>grpc+ssl://identity.api.dev.example.dev:443\<close> and the service \<^verbatim>\<open>monitoring\<close>.
\<close>

lemma secure_address_first_label_witness:
  "FetchService_hostPort example_world ''grpc+ssl://identity.api.dev.example.dev:443'' ''monitoring'' =
     Return (Inr (''monitoring.api.dev.example.dev:443'',
                  ''grpc+ssl://identity.api.dev.example.dev:443'',
                  ''grpc+ssl://identity.api.dev.example.dev:443'', True))
   \<and> fetchJSONResponse_hostPort example_world ''grpc+ssl://identity.api.dev.example.dev:443''
         ''monitoring'' ''grpc+ssl://identity.api.dev.example.dev:443''
         ''grpc+ssl://identity.api.dev.example.dev:443'' True =
     Inr ''monitoring.api.dev.example.dev:443''"
proof -
  let ?labels = "[''identity'', ''api'', ''dev'', ''example'', ''dev:443'']"
  have len: "4 \<le> length ?labels" by simp
  have dots: "\<forall>l \<in> set ?labels. CHR ''.'' \<notin> set l" by simp
  have local: "\<not> strings_HasPrefix ''grpc+ssl://identity.api.dev.example.dev:443'' ''grpc://''"
    by (simp add: strings_HasPrefix_def)
  have api: "configs_GetAPIEndpoint example_world ''grpc+ssl://identity.api.dev.example.dev:443'' =
      Inr ''grpc+ssl://identity.api.dev.example.dev:443''"
    by (simp add: example_world_def)
  have identity: "configs_GetIdentityEndpoint example_world
        ''grpc+ssl://identity.api.dev.example.dev:443'' =
      Inr (''grpc+ssl://'' @ strings_Join ?labels ''.'', True)"
    by (simp add: example_world_def)
  from secure_address_first_label [OF len dots local api identity, of "''monitoring''"]
  show ?thesis by (simp add: example_world_def)
qed

text \<open>
  C2. The code at the descriptor \<^verbatim>\<open>grpc+ssl://identity.api.dev.example.dev:443\<close> and the
  service \<^verbatim>\<open>monitoring\<close> when the identity lookup reports no identity service: FetchService
  resolves and dials \<^verbatim>\<open>monitoring.api.dev.example.dev:443\<close>, the first label replaced and the
  other labels and the port kept; fetchJSONResponse, which cuts the descriptor at its last
  slash before it looks for \<^verbatim>\<open>://\<close> (lines 511 to 516), rejects the same descriptor, and
  FetchService returns that error.
\<close>

theorem direct_secure_address_rejected:
  "FetchService_hostPort
     (example_world\<lparr>configs_GetIdentityEndpoint := (\<lambda>endpoint. Inr ([], False))\<rparr>)
     ''grpc+ssl://identity.api.dev.example.dev:443'' ''monitoring'' =
     Return (Inr (''monitoring.api.dev.example.dev:443'',
                  ''grpc+ssl://identity.api.dev.example.dev:443'', [], False))
   \<and> fetchJSONResponse_hostPort
       (example_world\<lparr>configs_GetIdentityEndpoint := (\<lambda>endpoint. Inr ([], False))\<rparr>)
       ''grpc+ssl://identity.api.dev.example.dev:443'' ''monitoring''
       ''grpc+ssl://identity.api.dev.example.dev:443'' [] False =
     Inl ''invalid endpoint format: grpc+ssl:/''
   \<and> (case result (FetchService
               (example_world\<lparr>configs_GetIdentityEndpoint := (\<lambda>endpoint. Inr ([], False))\<rparr>)
               ''monitoring'' ''list'' ''Webhook'' example_options) of
         Return (None, Some err) \<Rightarrow> err
       | _ \<Rightarrow> []) = ''invalid endpoint format: grpc+ssl:/''"
  by code_simp

subsection \<open>Streaming normalisation\<close>

lemma recvLoop_messages:
  "recvLoop (map (\<lambda>m. Message (Inr m)) msgs) acc = Inr (acc @ msgs)"
  by (induction msgs arbitrary: acc) auto

text \<open>
  C1. A server-streaming call that receives no message yields the text
  \<^verbatim>\<open>{"results": []}\<close>; one that receives exactly one message yields that message itself;
  one that receives two or more yields \<^verbatim>\<open>{"results": [m1,m2,...]}\<close> with the messages in
  the order in which they were received.
\<close>

theorem streaming_normalisation:
  \<open>serverStreaming (delivers []) = Inr ''{"results": []}'' \<and>
   serverStreaming (delivers [m]) = Inr m \<and>
   serverStreaming (delivers (m1 # m2 # ms)) =
     Inr (''{"results": ['' @ strings_Join (m1 # m2 # ms) '','' @ '']}'')\<close>
  by (simp add: serverStreaming_def delivers_def recvLoop_messages combinedJSON_def)

subsection \<open>Discovery\<close>

lemma pluginScan_find: "pluginScan services resourceName = find (pluginMatch resourceName) services"
  by (induction services) (auto simp: pluginMatch_def)

lemma apiScan_find:
  "apiScan services serviceName resourceName = find (apiMatch serviceName resourceName) services"
  by (induction services) (auto simp: apiMatch_def)

text \<open>
  C3. Discovery returns the first service of the list that contains the plugin marker and
  ends with the resource name when there is one; otherwise the first service that contains
  the versioned-API namespace of the short service name and ends with the resource name;
  otherwise it fails with an error whose message contains both the short service name and
  the resource name.
\<close>

theorem discoverService_policy:
  "discoverService (Inr services) serviceName resourceName =
     (case find (pluginMatch resourceName) services of
        Some service \<Rightarrow> Inr service
      | None \<Rightarrow>
     (case find (apiMatch serviceName resourceName) services of
        Some service \<Rightarrow> Inr service
      | None \<Rightarrow> Inl (''service not found for '' @ serviceName @ ''.'' @ resourceName)))
   \<and> strings_Contains (''service not found for '' @ serviceName @ ''.'' @ resourceName) serviceName
   \<and> strings_Contains (''service not found for '' @ serviceName @ ''.'' @ resourceName) resourceName"
proof -
  have "strings_Contains (''service not found for '' @ serviceName @ (''.'' @ resourceName)) serviceName"
    by (rule strings_Contains_append)
  moreover have "strings_Contains ((''service not found for '' @ serviceName @ ''.'') @ resourceName @ []) resourceName"
    by (rule strings_Contains_append)
  moreover have "discoverService (Inr services) serviceName resourceName =
     (case find (pluginMatch resourceName) services of
        Some service \<Rightarrow> Inr service
      | None \<Rightarrow>
     (case find (apiMatch serviceName resourceName) services of
        Some service \<Rightarrow> Inr service
      | None \<Rightarrow> Inl (''service not found for '' @ serviceName @ ''.'' @ resourceName)))"
    unfolding discoverService_def pluginScan_find apiScan_find by simp
  ultimately show ?thesis
    by (simp only: append_assoc append_Nil2 simp_thms)
qed

subsection \<open>Missing required parameter\<close>

lemma strings_Contains_prepend:
  "strings_Contains s substr \<Longrightarrow> strings_Contains (x @ s) substr"
  unfolding strings_Contains_def by (induction x) (auto simp: strings_Index.simps Let_def)

lemma extractParameterName_after:
  assumes fragment: "strings_Contains err ''Required parameter. (key = ''"
    and rest: "drop (nat (strings_Index err ''key = '' + 6)) err = name @ '')'' @ post"
    and paren: "CHR '')'' \<notin> set name"
  shows "extractParameterName err = name"
proof -
  have stop: "strings_Index (name @ CHR '')'' # post) '')'' = int (length name)"
    using paren by (rule strings_Index_char_first)
  from rest have rest': "drop (nat (strings_Index err ''key = '' + 6)) err = name @ CHR '')'' # post"
    by simp
  show ?thesis
    unfolding extractParameterName_def Let_def rest' stop using fragment by simp
qed

lemma remoteError_wraps:
  assumes "failing \<noteq> Invoking \<or>
           \<not> (strings_Contains status ''ERROR_AUTHENTICATE_FAILURE'' \<or>
              strings_Contains status ''Token is invalid or expired'')"
  shows "\<exists>wrapper. remoteError failing environment fullMethod status = wrapper @ status"
proof (cases failing)
  case Invoking
  with assms have "remoteError failing environment fullMethod status =
      (''failed to invoke method '' @ fullMethod @ '': '') @ status"
    by (simp add: remoteError_def invokeError_def)
  then show ?thesis by blast
qed (simp_all add: remoteError_def)

text \<open>The errors of \<^const>\<open>remoteError\<close> are the ones that the code returns.\<close>

lemma recvLoop_failure:
  "recvLoop (map (\<lambda>m. Message (Inr m)) msgs @ Failure status # rest) acc =
   Inl (remoteError Receiving environment fullMethod status)"
  by (induction msgs arbitrary: acc) (simp_all add: remoteError_def)

lemma serverStreaming_failure:
  "NewStream st = Some status \<Longrightarrow>
     serverStreaming st = Inl (remoteError Creating environment fullMethod status)"
  "NewStream st = None \<Longrightarrow> SendMsg st = Some status \<Longrightarrow>
     serverStreaming st = Inl (remoteError Sending environment fullMethod status)"
  "NewStream st = None \<Longrightarrow> SendMsg st = None \<Longrightarrow> CloseSend st = Some status \<Longrightarrow>
     serverStreaming st = Inl (remoteError Closing environment fullMethod status)"
  "NewStream st = None \<Longrightarrow> SendMsg st = None \<Longrightarrow> CloseSend st = None \<Longrightarrow>
   RecvMsg st = map (\<lambda>m. Message (Inr m)) msgs @ Failure status # rest \<Longrightarrow>
     serverStreaming st = Inl (remoteError Receiving environment fullMethod status)"
  by (simp_all add: serverStreaming_def remoteError_def
      recvLoop_failure [of _ _ _ _ environment fullMethod, unfolded remoteError_def, simplified])

lemma remoteError_invoke:
  "remoteError Invoking environment fullMethod status = invokeError environment fullMethod status"
  by (simp add: remoteError_def)

text \<open>
  Two runs of FetchService in which the remote call fails for a missing parameter: a unary
  call, and a server-streaming call whose receive step fails with a status text that also
  carries an authentication marker.
\<close>

lemma FetchService_required_parameter_runs:
  "(case result (FetchService
            (example_world\<lparr>conn_Invoke := (\<lambda>address fullMethod request.
               Inl ''rpc error: code = InvalidArgument desc = ERROR_REQUIRED_PARAMETER: Required parameter. (key = user_id)'')\<rparr>)
            ''identity'' ''list'' ''User'' example_options) of
      Return (None, Some err) \<Rightarrow> err
    | _ \<Rightarrow> []) = ''missing required parameter: user_id'' \<and>
   (case result (FetchService
            (example_world\<lparr>
               refClient_ResolveService :=
                 (\<lambda>address name.
                    Inr [''list'' \<mapsto> \<lparr>IsClientStreaming = False, IsServerStreaming = True,
                                     UnmarshalJSON = (\<lambda>text. None)\<rparr>]),
               conn_NewStream := (\<lambda>address fullMethod request.
                 \<lparr>NewStream = None, SendMsg = None, CloseSend = None,
                  RecvMsg = [Failure
                    ''ERROR_AUTHENTICATE_FAILURE: ERROR_REQUIRED_PARAMETER: Required parameter. (key = token)'']\<rparr>)\<rparr>)
            ''identity'' ''list'' ''User'' example_options) of
      Return (None, Some err) \<Rightarrow> err
    | _ \<Rightarrow> []) = ''missing required parameter: token''"
  by code_simp

text \<open>
  C9, amended. A remote call fails with a status text that contains the marker
  \<^verbatim>\<open>ERROR_REQUIRED_PARAMETER\<close> and the fragment \<^verbatim>\<open>Required parameter. (key = <name>)\<close>, where
  the name is not empty and has no closing parenthesis. The failing step is any step of a
  server-streaming call, or the unary call with a status text that carries neither of the
  two authentication markers. If in the error message of fetchJSONResponse the name and
  the closing parenthesis come right after the first \<^verbatim>\<open>key = \<close>, FetchService fails with
  \<^verbatim>\<open>missing required parameter: <name>\<close>.
\<close>

theorem required_parameter_name:
  assumes status: "status = pre @ ''Required parameter. (key = '' @ name @ '')'' @ post"
    and marker: "strings_Contains status ''ERROR_REQUIRED_PARAMETER''"
    and auth: "failing \<noteq> Invoking \<or>
               \<not> (strings_Contains status ''ERROR_AUTHENTICATE_FAILURE'' \<or>
                  strings_Contains status ''Token is invalid or expired'')"
    and name: "name \<noteq> []" "CHR '')'' \<notin> set name"
    and first: "drop (nat (strings_Index (remoteError failing environment fullMethod status) ''key = '' + 6))
                  (remoteError failing environment fullMethod status) = name @ '')'' @ post"
  shows "FetchService_failure (remoteError failing environment fullMethod status) =
         ''missing required parameter: '' @ name"
proof -
  from remoteError_wraps [OF auth] obtain wrapper where
    err: "remoteError failing environment fullMethod status = wrapper @ status" ..
  have m: "strings_Contains (wrapper @ status) ''ERROR_REQUIRED_PARAMETER''"
    using marker by (rule strings_Contains_prepend)
  have "strings_Contains status ''Required parameter. (key = ''"
    unfolding status
    using strings_Contains_append [of pre "''Required parameter. (key = ''" "name @ '')'' @ post"]
    by simp
  then have fragment: "strings_Contains (wrapper @ status) ''Required parameter. (key = ''"
    by (rule strings_Contains_prepend)
  from first have "drop (nat (strings_Index (wrapper @ status) ''key = '' + 6)) (wrapper @ status) =
      name @ '')'' @ post"
    by (simp only: err)
  with fragment have "extractParameterName (wrapper @ status) = name"
    using name(2) by (rule extractParameterName_after)
  then show ?thesis
    unfolding err FetchService_failure_def Let_def using m name(1) by simp
qed

text \<open>
  The amended statement at the status text of a missing \<^verbatim>\<open>user_id\<close> in a unary call, and at a
  status text with an authentication marker in the receive step of a streaming call.
\<close>

theorem required_parameter_name_witness:
  "FetchService_failure (remoteError Invoking ''dev-user'' ''/spaceone.api.identity.v2.User/create''
     ''rpc error: code = InvalidArgument desc = ERROR_REQUIRED_PARAMETER: Required parameter. (key = user_id)'') =
   ''missing required parameter: user_id'' \<and>
   FetchService_failure (remoteError Receiving ''dev-user'' ''/spaceone.api.identity.v2.Token/issue''
     ''ERROR_AUTHENTICATE_FAILURE: ERROR_REQUIRED_PARAMETER: Required parameter. (key = token)'') =
   ''missing required parameter: token''"
proof -
  let ?pre = "''rpc error: code = InvalidArgument desc = ERROR_REQUIRED_PARAMETER: ''"
  let ?status = "?pre @ ''Required parameter. (key = '' @ ''user_id'' @ '')'' @ []"
  let ?fullMethod = "''/spaceone.api.identity.v2.User/create''"
  have marker: "strings_Contains ?status ''ERROR_REQUIRED_PARAMETER''"
    by code_simp
  have auth: "Invoking \<noteq> Invoking \<or>
      \<not> (strings_Contains ?status ''ERROR_AUTHENTICATE_FAILURE'' \<or>
         strings_Contains ?status ''Token is invalid or expired'')"
    by code_simp
  have name: "''user_id'' \<noteq> []" "CHR '')'' \<notin> set ''user_id''"
    by simp_all
  have first: "drop (nat (strings_Index (remoteError Invoking ''dev-user'' ?fullMethod ?status) ''key = '' + 6))
      (remoteError Invoking ''dev-user'' ?fullMethod ?status) = ''user_id'' @ '')'' @ []"
    by code_simp
  let ?pre2 = "''ERROR_AUTHENTICATE_FAILURE: ERROR_REQUIRED_PARAMETER: ''"
  let ?status2 = "?pre2 @ ''Required parameter. (key = '' @ ''token'' @ '')'' @ []"
  let ?fullMethod2 = "''/spaceone.api.identity.v2.Token/issue''"
  have marker2: "strings_Contains ?status2 ''ERROR_REQUIRED_PARAMETER''"
    by code_simp
  have auth2: "Receiving \<noteq> Invoking \<or>
      \<not> (strings_Contains ?status2 ''ERROR_AUTHENTICATE_FAILURE'' \<or>
         strings_Contains ?status2 ''Token is invalid or expired'')"
    by simp
  have name2: "''token'' \<noteq> []" "CHR '')'' \<notin> set ''token''"
    by simp_all
  have first2: "drop (nat (strings_Index (remoteError Receiving ''dev-user'' ?fullMethod2 ?status2) ''key = '' + 6))
      (remoteError Receiving ''dev-user'' ?fullMethod2 ?status2) = ''token'' @ '')'' @ []"
    by code_simp
  from required_parameter_name [OF refl marker auth name first]
    required_parameter_name [OF refl marker2 auth2 name2 first2]
  show ?thesis by simp
qed

text \<open>
  A status text with the marker and the fragment that also carries an authentication
  marker: fetchJSONResponse replaces the error before FetchService looks for the name.
\<close>

theorem required_parameter_counterexample:
  "strings_Contains
     ''ERROR_AUTHENTICATE_FAILURE: ERROR_REQUIRED_PARAMETER: Required parameter. (key = token)''
     ''ERROR_REQUIRED_PARAMETER'' \<and>
   strings_Contains
     ''ERROR_AUTHENTICATE_FAILURE: ERROR_REQUIRED_PARAMETER: Required parameter. (key = token)''
     ''Required parameter. (key = token)'' \<and>
   FetchService_failure (invokeError ''dev-user'' ''/spaceone.api.identity.v2.Token/issue''
     ''ERROR_AUTHENTICATE_FAILURE: ERROR_REQUIRED_PARAMETER: Required parameter. (key = token)'') =
   ''authentication required''"
  by code_simp

subsection \<open>Parameter precedence\<close>


lemma parseTokens_lookup:
  "parseTokens w params (Some m) = Return (Inr (Some merged)) \<Longrightarrow>
   merged key = (case lastToken key params of
                   Some v \<Rightarrow> Some (inferValue w v)
                 | None \<Rightarrow> m key)"
proof (induction params arbitrary: m)
  case Nil
  then show ?case by simp
next
  case (Cons param params)
  let ?parts = "strings_SplitN param ''='' 2"
  from Cons.prems have len: "length ?parts = 2"
    by (auto simp: Let_def split: if_splits)
  with Cons.prems have
    "parseTokens w params (Some (m(?parts ! 0 \<mapsto> inferValue w (?parts ! 1)))) =
     Return (Inr (Some merged))"
    by (simp add: Let_def)
  from Cons.IH [OF this] len show ?case
    by (auto simp: Let_def split: option.splits)
qed





lemma parseParameters_overlay:
  assumes ret: "parseParameters w options = Return (Inr (Some merged))"
    and json: "JSONParameter options \<noteq> []"
    and blob: "json_Unmarshal_map w (JSONParameter options) = Inr (Some blob)"
  shows "\<exists>parsed1. parseTokens w (Parameters options) (Some (parsed1 ++ blob)) =
           Return (Inr (Some merged))"
proof (cases "FileParameter options = []")
  case True
  with ret json blob have
    "parseTokens w (Parameters options) (Some (Map.empty ++ blob)) = Return (Inr (Some merged))"
    by (simp add: parseParameters_def)
  then show ?thesis by blast
next
  case False
  with ret json blob show ?thesis
    by (auto simp: parseParameters_def split: sum.splits)
qed


text \<open>
  C5, amended. In the merged parameter set the inline JSON blob overrides the file-sourced
  document, and the key=value tokens override the blob: for every key of the blob the
  merged set holds the blob's value, unless a token names that key; then it holds the
  value inferred from the last such token.
\<close>

theorem inline_blob_precedence:
  assumes ret: "parseParameters w options = Return (Inr (Some merged))"
    and json: "JSONParameter options \<noteq> []"
    and blob: "json_Unmarshal_map w (JSONParameter options) = Inr (Some blob)"
    and v: "blob key = Some v"
  shows "merged key =
           (case lastToken key (Parameters options) of
              Some text \<Rightarrow> Some (inferValue w text)
            | None \<Rightarrow> Some v)"
proof -
  from parseParameters_overlay [OF ret json blob] obtain parsed1 where
    "parseTokens w (Parameters options) (Some (parsed1 ++ blob)) = Return (Inr (Some merged))" ..
  from parseTokens_lookup [OF this, of key] v show ?thesis
    by (simp add: map_add_def split: option.splits)
qed

text \<open>The amended statement for a key that the file and the blob supply and no token names.\<close>

theorem inline_blob_precedence_witness:
  \<open>(case parseParameters example_world
            (example_options\<lparr>Parameters := [''count=3''], JSONParameter := ''{"name": "blob"}'',
               FileParameter := ''params.yaml''\<rparr>) of
       Return (Inr (Some merged)) \<Rightarrow> merged ''name''
     | _ \<Rightarrow> None) = Some (JString ''blob'')\<close>
proof -
  let ?options = \<open>example_options\<lparr>Parameters := [''count=3''], JSONParameter := ''{"name": "blob"}'',
               FileParameter := ''params.yaml''\<rparr>\<close>
  have "\<exists>merged. parseParameters example_world ?options = Return (Inr (Some merged))"
    by (simp add: parseParameters_def example_world_def example_options_def numeral_2_eq_2
        strings_Index.simps)
  then obtain merged where
    ret: "parseParameters example_world ?options = Return (Inr (Some merged))" ..
  have json: "JSONParameter ?options \<noteq> []"
    by (simp add: example_options_def)
  have blob: \<open>json_Unmarshal_map example_world (JSONParameter ?options) =
      Inr (Some [''name'' \<mapsto> JString ''blob''])\<close>
    by (simp add: example_world_def example_options_def)
  have v: "[''name'' \<mapsto> JString ''blob''] ''name'' = Some (JString ''blob'')"
    by simp
  have last: "lastToken ''name'' (Parameters ?options) = None"
    by (simp add: example_options_def numeral_2_eq_2 strings_Index.simps)
  from inline_blob_precedence [OF ret json blob v] last
  have "merged ''name'' = Some (JString ''blob'')" by simp
  with ret show ?thesis by simp
qed

text \<open>
  The key \<^verbatim>\<open>name\<close> in the blob and in a token: the merged set holds the token's value, not
  the blob's.
\<close>

theorem inline_blob_counterexample:
  \<open>(case json_Unmarshal_map example_world ''{"name": "blob"}'' of
       Inr (Some blob) \<Rightarrow> blob ''name''
     | _ \<Rightarrow> None) = Some (JString ''blob'') \<and>
    (case parseParameters example_world
            (example_options\<lparr>Parameters := [''name=cli''], JSONParameter := ''{"name": "blob"}''\<rparr>) of
       Return (Inr (Some merged)) \<Rightarrow> merged ''name''
     | _ \<Rightarrow> None) = Some (JString ''cli'')\<close>
  by (simp add: parseParameters_def example_world_def example_options_def numeral_2_eq_2
      strings_Index.simps inferValue_def)






subsection \<open>FetchService\<close>

lemma loadConfig_checks:
  assumes "loadConfig w = Inr config"
  obtains home where "os_UserHomeDir w = Inr home"
    and "viper_ReadInConfig w (filepath_Join w [home, ''.cfctl'', ''setting.yaml'']) = None"
    and "viper_GetString w ''environment'' \<noteq> []"
  using assms unfolding loadConfig_def
  by (auto simp: Let_def split: sum.splits option.splits if_splits)

lemma FetchService_loaded:
  assumes "loadConfig w = Inr config"
  shows "FetchService w serviceName verb resourceName options =
           (if Token (currentEnvironment config) = [] then
              \<lparr>result = Return (None, None), callerOptions = options, dialled = []\<rparr>
            else FetchService_call w config serviceName verb resourceName options)"
proof -
  from assms obtain home where "os_UserHomeDir w = Inr home"
    and "viper_ReadInConfig w (filepath_Join w [home, ''.cfctl'', ''setting.yaml'']) = None"
    and "viper_GetString w ''environment'' \<noteq> []"
    by (rule loadConfig_checks)
  with assms show ?thesis by (simp add: FetchService_def)
qed

lemma FetchService_not_loaded:
  assumes "loadConfig w = Inl err"
  shows "\<exists>e. FetchService w serviceName verb resourceName options = failed e options []"
  using assms by (auto simp: FetchService_def split: sum.splits option.splits)

text \<open>
  C10. If the configuration loads and the token of the active environment is empty,
  FetchService returns the pair \<^verbatim>\<open>(nil, nil)\<close> for every service name, verb, resource name and
  options value; it dials no address and leaves the options of the caller as they were.
\<close>

theorem empty_token_returns_nil:
  assumes "loadConfig w = Inr config" and "Token (currentEnvironment config) = []"
  shows "FetchService w serviceName verb resourceName options =
           \<lparr>result = Return (None, None), callerOptions = options, dialled = []\<rparr>"
  using assms by (simp add: FetchService_loaded)

text \<open>A user environment whose token file is missing and whose setting has no token.\<close>

theorem empty_token_returns_nil_witness:
  "FetchService (example_world\<lparr>os_ReadFile := (\<lambda>path. Inl ''no such file or directory'')\<rparr>)
     ''identity'' ''list'' ''User'' example_options =
   \<lparr>result = Return (None, None), callerOptions = example_options, dialled = []\<rparr>"
proof -
  let ?w = "example_world\<lparr>os_ReadFile := (\<lambda>path. Inl ''no such file or directory'')\<rparr>"
  let ?config = "\<lparr>Environment = ''dev-user'',
      Environments = [''dev-user'' \<mapsto>
        \<lparr>Endpoint = ''grpc+ssl://identity.api.dev.example.dev:443'', Proxy = [], Token = []\<rparr>]\<rparr>"
  have load: "loadConfig ?w = Inr ?config"
    by (simp add: loadConfig_def example_world_def strings_HasSuffix_def suffix_to_prefix Let_def)
  have token: "Token (currentEnvironment ?config) = []"
    by (simp add: currentEnvironment_def)
  from empty_token_returns_nil [OF load token] show ?thesis .
qed

subsection \<open>Process exits\<close>












lemma presented_loaded:
  assumes "loadConfig w = Inr config" and "Token (currentEnvironment config) \<noteq> []"
  shows "presented w serviceName verb resourceName options =
     (case FetchService_response w config serviceName verb resourceName options of
        Inl ended \<Rightarrow> None
      | Inr (respMap, verb1, options1, h, dials) \<Rightarrow>
          (if OutputFormat (h options1) = [] then None
           else
             (case FetchService_sort w verb1 (h options1) respMap of
                Inl msg \<Rightarrow> None
              | Inr respMap1 \<Rightarrow>
                  Some (FetchService_columns w verb1 (h options1)
                          (FetchService_rows verb1 (h options1) respMap1),
                        h options1))))"
  using assms by (simp add: presented_def)




subsection \<open>The options of the caller\<close>

lemma expandAlias_list:
  assumes "configs_ListAliases w = Inr aliases" and "aliasedToList w serviceName verb"
    and "expandAlias aliases serviceName verb resourceName (\<lambda>r. options) = (verb1, resourceName1, p, h)"
  shows "p = NewStruct \<and>
         h CallerStruct = (if OutputFormatExplicit options then options
                           else options\<lparr>OutputFormat := ''table''\<rparr>)"
  using assms
  by (auto simp: aliasedToList_def expandAlias_def Let_def split: option.splits if_splits)

lemma expandAlias_other:
  assumes "configs_ListAliases w = Inr aliases" and "\<not> aliasedToList w serviceName verb"
    and "expandAlias aliases serviceName verb resourceName (\<lambda>r. options) = (verb1, resourceName1, p, h)"
  shows "p = CallerStruct \<and> h = (\<lambda>r. options) \<and> (verb1 = ''list'' \<longrightarrow> verb = ''list'')"
  using assms
  by (auto simp: aliasedToList_def expandAlias_def Let_def split: option.splits if_splits)

lemma fetchJSONResponse_heap:
  "fst (snd (fetchJSONResponse w config serviceName verb resourceName p h apiEndpoint
               identityEndpoint hasIdentityService)) = h(p := pageParameters verb (h p))"
  by (auto simp: fetchJSONResponse_def Let_def split: sum.splits option.splits)

lemma printTable_heap:
  "snd (printTable w data p h) =
     (case resultsOf data of
        None \<Rightarrow> h
      | Some results \<Rightarrow>
          h(p := (h p)\<lparr>PageSize :=
                 (if NoPaging (h p) then int (length results)
                  else if PageSize (h p) = 0 then 15 else PageSize (h p))\<rparr>))"
  by (auto simp: printTable_def Let_def split: option.splits session.splits)

lemma printData_heap:
  "snd (printData w data p h) =
     (if OutputFormat (h p) = ''table'' then snd (printTable w data p h) else h)"
  by (auto simp: printData_def split: prod.splits outcome.splits sum.splits option.splits)

text \<open>
  The struct of the caller after FetchService when the token is not empty: as it was; or
  as the alias expansion and the paging tokens left it, when the call ended before
  printData; or as printData left it.
\<close>

lemma FetchService_response_heap:
  assumes "FetchService_response w config serviceName verb resourceName options = Inl ended"
  shows "callerOptions ended = options \<or>
         (\<exists>aliases verb1 resourceName1 p h.
            configs_ListAliases w = Inr aliases \<and>
            expandAlias aliases serviceName verb resourceName (\<lambda>r. options) =
              (verb1, resourceName1, p, h) \<and>
            callerOptions ended = (h(p := pageParameters verb1 (h p))) CallerStruct)"
proof (cases "FetchService_hostPort w (Endpoint (currentEnvironment config)) serviceName")
  case (Return r)
  show ?thesis
  proof (cases r)
    case (Inl err)
    with Return assms show ?thesis by (auto simp: FetchService_response_def failed_def)
  next
    case (Inr found)
    obtain hostPort apiEndpoint identityEndpoint hasIdentityService where
      found: "found = (hostPort, apiEndpoint, identityEndpoint, hasIdentityService)"
      by (cases found) auto
    show ?thesis
    proof (cases "grpc_Dial w hostPort")
      case (Some err)
      with Return Inr found assms show ?thesis
        by (auto simp: FetchService_response_def failed_def)
    next
      case None
      show ?thesis
      proof (cases "configs_ListAliases w")
        case (Inl err)
        with Return Inr found None assms show ?thesis
          by (auto simp: FetchService_response_def failed_def)
      next
        case aliases: (Inr aliases)
        obtain verb1 resourceName1 p h where
          ex: "expandAlias aliases serviceName verb resourceName (\<lambda>r. options) =
               (verb1, resourceName1, p, h)"
          by (cases "expandAlias aliases serviceName verb resourceName (\<lambda>r. options)") auto
        let ?call = "fetchJSONResponse w config serviceName verb1 resourceName1 p h apiEndpoint
              identityEndpoint hasIdentityService"
        obtain response h1 dials where call: "?call = (response, h1, dials)"
          by (cases ?call) auto
        with fetchJSONResponse_heap [of w config serviceName verb1 resourceName1 p h apiEndpoint
            identityEndpoint hasIdentityService]
        have h1: "h1 = h(p := pageParameters verb1 (h p))" by simp
        have "callerOptions ended = h1 CallerStruct"
          using Return Inr found None aliases ex call assms
          by (auto simp: FetchService_response_def failed_def
              split: outcome.splits sum.splits)
        with aliases ex h1 show ?thesis by blast
      qed
    qed
  qed
qed (use assms in \<open>auto simp: FetchService_response_def\<close>)

lemma FetchService_response_decoded_heap:
  assumes "FetchService_response w config serviceName verb resourceName options =
           Inr (respMap, verb1, p, h1, dials)"
  shows "\<exists>aliases resourceName1 h.
           configs_ListAliases w = Inr aliases \<and>
           expandAlias aliases serviceName verb resourceName (\<lambda>r. options) =
             (verb1, resourceName1, p, h) \<and>
           h1 = h(p := pageParameters verb1 (h p))"
proof (cases "FetchService_hostPort w (Endpoint (currentEnvironment config)) serviceName")
  case (Return r)
  show ?thesis
  proof (cases r)
    case (Inl err)
    with Return assms show ?thesis by (auto simp: FetchService_response_def failed_def)
  next
    case (Inr found)
    obtain hostPort apiEndpoint identityEndpoint hasIdentityService where
      found: "found = (hostPort, apiEndpoint, identityEndpoint, hasIdentityService)"
      by (cases found) auto
    show ?thesis
    proof (cases "grpc_Dial w hostPort")
      case (Some err)
      with Return Inr found assms show ?thesis
        by (auto simp: FetchService_response_def failed_def)
    next
      case None
      show ?thesis
      proof (cases "configs_ListAliases w")
        case (Inl err)
        with Return Inr found None assms show ?thesis
          by (auto simp: FetchService_response_def failed_def)
      next
        case aliases: (Inr aliases)
        obtain verb2 resourceName1 p2 h where
          ex: "expandAlias aliases serviceName verb resourceName (\<lambda>r. options) =
               (verb2, resourceName1, p2, h)"
          by (cases "expandAlias aliases serviceName verb resourceName (\<lambda>r. options)") auto
        let ?call = "fetchJSONResponse w config serviceName verb2 resourceName1 p2 h apiEndpoint
              identityEndpoint hasIdentityService"
        obtain response h2 dials2 where call: "?call = (response, h2, dials2)"
          by (cases ?call) auto
        with fetchJSONResponse_heap [of w config serviceName verb2 resourceName1 p2 h apiEndpoint
            identityEndpoint hasIdentityService]
        have h2: "h2 = h(p2 := pageParameters verb2 (h p2))" by simp
        have "verb1 = verb2 \<and> p = p2 \<and> h1 = h2"
          using Return Inr found None aliases ex call assms
          by (auto simp: FetchService_response_def failed_def
              split: outcome.splits sum.splits)
        with aliases ex h2 show ?thesis by blast
      qed
    qed
  qed
qed (use assms in \<open>auto simp: FetchService_response_def\<close>)

lemma FetchService_present_heap:
  "callerOptions (FetchService_present w respMap verb p h dials) = h CallerStruct \<or>
   OutputFormat (h p) = ''table'' \<and>
   (\<exists>respMap1 results.
      FetchService_sort w verb (h p) respMap = Inr respMap1 \<and>
      resultsOf (FetchService_columns w verb (h p) (FetchService_rows verb (h p) respMap1)) =
        Some results \<and>
      callerOptions (FetchService_present w respMap verb p h dials) =
        (h(p := (h p)\<lparr>PageSize :=
               (if NoPaging (h p) then int (length results)
                else if PageSize (h p) = 0 then 15 else PageSize (h p))\<rparr>)) CallerStruct)"
proof (cases "OutputFormat (h p) \<noteq> []")
  case False
  then show ?thesis by (simp add: FetchService_present_def)
next
  case True
  show ?thesis
  proof (cases "FetchService_sort w verb (h p) respMap")
    case (Inl msg)
    with True show ?thesis by (simp add: FetchService_present_def)
  next
    case (Inr respMap1)
    let ?data = "FetchService_columns w verb (h p) (FetchService_rows verb (h p) respMap1)"
    obtain printed h1 where printed: "printData w ?data p h = (printed, h1)"
      by (cases "printData w ?data p h") auto
    with printData_heap [of w ?data p h] printTable_heap [of w ?data p h]
    have h1: "h1 = (if OutputFormat (h p) = ''table'' then
                      (case resultsOf ?data of
                         None \<Rightarrow> h
                       | Some results \<Rightarrow>
                           h(p := (h p)\<lparr>PageSize :=
                             (if NoPaging (h p) then int (length results)
                              else if PageSize (h p) = 0 then 15 else PageSize (h p))\<rparr>))
                    else h)"
      by simp
    have caller: "callerOptions (FetchService_present w respMap verb p h dials) = h1 CallerStruct"
      using True Inr printed by (simp add: FetchService_present_def Let_def)
    show ?thesis
    proof (cases "OutputFormat (h p) = ''table''")
      case False
      with h1 caller show ?thesis by simp
    next
      case table: True
      show ?thesis
      proof (cases "resultsOf ?data")
        case None
        with h1 caller table show ?thesis by simp
      next
        case (Some results)
        with h1 caller table Inr show ?thesis by simp
      qed
    qed
  qed
qed

lemma pageParameters_frame:
  "\<exists>params. pageParameters verb options = options\<lparr>Parameters := params\<rparr> \<and>
     (params = Parameters options \<or>
      verb = ''list'' \<and> 0 < Page options \<and>
      params = Parameters options @
        [''page='' @ Sprintf_d (Page options), ''page_size='' @ Sprintf_d (PageSize options)])"
  by (cases "verb = ''list'' \<and> 0 < Page options") (auto simp: pageParameters_def)

lemma FetchService_call_callerOptions:
  assumes load: "loadConfig w = Inr config" and token: "Token (currentEnvironment config) \<noteq> []"
  shows "\<exists>format params size.
     callerOptions (FetchService_call w config serviceName verb resourceName options) =
       options\<lparr>OutputFormat := format, Parameters := params, PageSize := size\<rparr> \<and>
     (format = OutputFormat options \<or>
      aliasedToList w serviceName verb \<and> \<not> OutputFormatExplicit options \<and> format = ''table'') \<and>
     (params = Parameters options \<or>
      verb = ''list'' \<and> \<not> aliasedToList w serviceName verb \<and> 0 < Page options \<and>
      params = Parameters options @
        [''page='' @ Sprintf_d (Page options), ''page_size='' @ Sprintf_d (PageSize options)]) \<and>
     (size = PageSize options \<or>
      OutputFormat options = ''table'' \<and> \<not> aliasedToList w serviceName verb \<and>
      (\<exists>data options1 results.
         presented w serviceName verb resourceName options = Some (data, options1) \<and>
         resultsOf data = Some results \<and>
         (NoPaging options \<and> size = int (length results) \<or>
          \<not> NoPaging options \<and> PageSize options = 0 \<and> size = 15)))"
proof -
  let ?run = "FetchService_call w config serviceName verb resourceName options"
  let ?tokens = "[''page='' @ Sprintf_d (Page options), ''page_size='' @ Sprintf_d (PageSize options)]"
  have unchanged: ?thesis if "callerOptions ?run = options"
    by (rule exI [of _ "OutputFormat options"], rule exI [of _ "Parameters options"],
        rule exI [of _ "PageSize options"]) (simp add: that)
  have aliased: ?thesis
    if "aliasedToList w serviceName verb"
      and "callerOptions ?run = (if OutputFormatExplicit options then options
                                 else options\<lparr>OutputFormat := ''table''\<rparr>)"
  proof (cases "OutputFormatExplicit options")
    case True
    with that show ?thesis by (intro unchanged) simp
  next
    case False
    show ?thesis
      by (rule exI [of _ "''table''"], rule exI [of _ "Parameters options"],
          rule exI [of _ "PageSize options"]) (use that False in simp)
  qed
  have paged: ?thesis
    if "\<not> aliasedToList w serviceName verb" and "verb1 = ''list'' \<longrightarrow> verb = ''list''"
      and "callerOptions ?run = pageParameters verb1 options" for verb1
  proof -
    from pageParameters_frame [of verb1 options] obtain params where
      params: "pageParameters verb1 options = options\<lparr>Parameters := params\<rparr>"
        "params = Parameters options \<or>
         verb1 = ''list'' \<and> 0 < Page options \<and> params = Parameters options @ ?tokens"
      by blast
    show ?thesis
      by (rule exI [of _ "OutputFormat options"], rule exI [of _ params],
          rule exI [of _ "PageSize options"]) (use that params in auto)
  qed
  have tabled: ?thesis
    if "\<not> aliasedToList w serviceName verb" and "verb1 = ''list'' \<longrightarrow> verb = ''list''"
      and "OutputFormat options = ''table''"
      and "presented w serviceName verb resourceName options = Some (data, options1)"
      and "resultsOf data = Some results"
      and "callerOptions ?run =
           (pageParameters verb1 options)\<lparr>PageSize :=
              (if NoPaging options then int (length results)
               else if PageSize options = 0 then 15 else PageSize options)\<rparr>"
    for verb1 data options1 results
  proof -
    from pageParameters_frame [of verb1 options] obtain params where
      params: "pageParameters verb1 options = options\<lparr>Parameters := params\<rparr>"
        "params = Parameters options \<or>
         verb1 = ''list'' \<and> 0 < Page options \<and> params = Parameters options @ ?tokens"
      by blast
    let ?size = "if NoPaging options then int (length results)
                 else if PageSize options = 0 then 15 else PageSize options"
    have size: "?size = PageSize options \<or>
        (\<exists>data options1 results.
           presented w serviceName verb resourceName options = Some (data, options1) \<and>
           resultsOf data = Some results \<and>
           (NoPaging options \<and> ?size = int (length results) \<or>
            \<not> NoPaging options \<and> PageSize options = 0 \<and> ?size = 15))"
      using that(4,5) by auto
    show ?thesis
      by (rule exI [of _ "OutputFormat options"], rule exI [of _ params],
          rule exI [of _ ?size]) (use that(1,2,3,6) params size in auto)
  qed
  show ?thesis
  proof (cases "FetchService_response w config serviceName verb resourceName options")
    case (Inl ended)
    then have run: "callerOptions ?run = callerOptions ended"
      by (simp add: FetchService_call_def)
    from FetchService_response_heap [OF Inl]
    consider "callerOptions ended = options"
      | aliases verb1 resourceName1 p h where "configs_ListAliases w = Inr aliases"
          "expandAlias aliases serviceName verb resourceName (\<lambda>r. options) =
             (verb1, resourceName1, p, h)"
          "callerOptions ended = (h(p := pageParameters verb1 (h p))) CallerStruct"
      by blast
    then show ?thesis
    proof cases
      case 1
      with run show ?thesis by (intro unchanged) simp
    next
      case 2
      show ?thesis
      proof (cases "aliasedToList w serviceName verb")
        case True
        from expandAlias_list [OF 2(1) True 2(2)] 2(3) run
        show ?thesis by (intro aliased [OF True]) simp
      next
        case False
        from expandAlias_other [OF 2(1) False 2(2)] 2(3) run
        show ?thesis by (intro paged [OF False, of verb1]) simp_all
      qed
    qed
  next
    case (Inr decoded)
    obtain respMap verb1 p h1 dials where
      decoded: "decoded = (respMap, verb1, p, h1, dials)"
      by (cases decoded) auto
    from Inr decoded have run: "?run = FetchService_present w respMap verb1 p h1 dials"
      by (simp add: FetchService_call_def)
    from FetchService_response_decoded_heap [OF Inr [unfolded decoded]]
    obtain aliases resourceName1 h where
      aliases: "configs_ListAliases w = Inr aliases"
      and ex: "expandAlias aliases serviceName verb resourceName (\<lambda>r. options) =
               (verb1, resourceName1, p, h)"
      and h1: "h1 = h(p := pageParameters verb1 (h p))"
      by blast
    from FetchService_present_heap [of w respMap verb1 p h1 dials]
    consider "callerOptions ?run = h1 CallerStruct"
      | respMap1 results where "OutputFormat (h1 p) = ''table''"
          "FetchService_sort w verb1 (h1 p) respMap = Inr respMap1"
          "resultsOf (FetchService_columns w verb1 (h1 p) (FetchService_rows verb1 (h1 p) respMap1)) =
             Some results"
          "callerOptions ?run =
             (h1(p := (h1 p)\<lparr>PageSize :=
                (if NoPaging (h1 p) then int (length results)
                 else if PageSize (h1 p) = 0 then 15 else PageSize (h1 p))\<rparr>)) CallerStruct"
      unfolding run by blast
    then show ?thesis
    proof cases
      case 1
      show ?thesis
      proof (cases "aliasedToList w serviceName verb")
        case True
        from expandAlias_list [OF aliases True ex] 1 h1
        show ?thesis by (intro aliased [OF True]) simp
      next
        case False
        from expandAlias_other [OF aliases False ex] 1 h1
        show ?thesis by (intro paged [OF False, of verb1]) simp_all
      qed
    next
      case 2
      show ?thesis
      proof (cases "aliasedToList w serviceName verb")
        case True
        from expandAlias_list [OF aliases True ex] 2(4) h1
        show ?thesis by (intro aliased [OF True]) simp
      next
        case False
        from expandAlias_other [OF aliases False ex]
        have p: "p = CallerStruct" and h: "h = (\<lambda>r. options)"
          and verb1: "verb1 = ''list'' \<longrightarrow> verb = ''list''"
          by simp_all
        from h1 p h have struct: "h1 p = pageParameters verb1 options"
          by simp
        have fields: "OutputFormat (pageParameters verb1 options) = OutputFormat options"
          "NoPaging (pageParameters verb1 options) = NoPaging options"
          "PageSize (pageParameters verb1 options) = PageSize options"
          by (simp_all add: pageParameters_def)
        let ?data = "FetchService_columns w verb1 (h1 p) (FetchService_rows verb1 (h1 p) respMap1)"
        have "presented w serviceName verb resourceName options = Some (?data, h1 p)"
          using Inr decoded 2(1,2) by (simp add: presented_loaded [OF load token])
        moreover have "OutputFormat options = ''table''"
          using 2(1) struct fields by simp
        moreover have "callerOptions ?run =
           (pageParameters verb1 options)\<lparr>PageSize :=
              (if NoPaging options then int (length results)
               else if PageSize options = 0 then 15 else PageSize options)\<rparr>"
          using 2(4) struct fields p by simp
        ultimately show ?thesis
          using 2(3) by (intro tabled [OF False verb1, of ?data "h1 p" results])
      qed
    qed
  qed
qed

text \<open>
  C6, amended. After FetchService the struct of the caller differs from what it was before
  the call in at most three fields. \<^verbatim>\<open>OutputFormat\<close> is as it was, or is \<^verbatim>\<open>table\<close> when the verb
  is an alias for a list command and the format was not explicit. \<^verbatim>\<open>Parameters\<close> is as it
  was, or has the tokens \<^verbatim>\<open>page=<Page>\<close> and \<^verbatim>\<open>page_size=<PageSize>\<close> appended when the verb is
  \<^verbatim>\<open>list\<close>, is not such an alias, and the page is greater than zero. \<^verbatim>\<open>PageSize\<close> is as it was,
  or, when the format is \<^verbatim>\<open>table\<close>, the verb is not such an alias and FetchService has come to
  printData with a response that has a list of results, it is the number of these results
  if paging is off and 15 if paging is on and the page size was zero. Every other field
  keeps its value.
\<close>

theorem caller_options_frame:
  "\<exists>format params size.
     callerOptions (FetchService w serviceName verb resourceName options) =
       options\<lparr>OutputFormat := format, Parameters := params, PageSize := size\<rparr> \<and>
     (format = OutputFormat options \<or>
      aliasedToList w serviceName verb \<and> \<not> OutputFormatExplicit options \<and> format = ''table'') \<and>
     (params = Parameters options \<or>
      verb = ''list'' \<and> \<not> aliasedToList w serviceName verb \<and> 0 < Page options \<and>
      params = Parameters options @
        [''page='' @ Sprintf_d (Page options), ''page_size='' @ Sprintf_d (PageSize options)]) \<and>
     (size = PageSize options \<or>
      OutputFormat options = ''table'' \<and> \<not> aliasedToList w serviceName verb \<and>
      (\<exists>data options1 results.
         presented w serviceName verb resourceName options = Some (data, options1) \<and>
         resultsOf data = Some results \<and>
         (NoPaging options \<and> size = int (length results) \<or>
          \<not> NoPaging options \<and> PageSize options = 0 \<and> size = 15)))"
proof (cases "loadConfig w")
  case (Inl err)
  from FetchService_not_loaded [OF Inl, of serviceName verb resourceName options]
  have "callerOptions (FetchService w serviceName verb resourceName options) = options"
    by (auto simp: failed_def)
  then show ?thesis
    by (intro exI [of _ "OutputFormat options"] exI [of _ "Parameters options"]
        exI [of _ "PageSize options"]) simp
next
  case (Inr config)
  show ?thesis
  proof (cases "Token (currentEnvironment config) = []")
    case True
    then have "callerOptions (FetchService w serviceName verb resourceName options) = options"
      by (simp add: FetchService_loaded [OF Inr])
    then show ?thesis
      by (intro exI [of _ "OutputFormat options"] exI [of _ "Parameters options"]
          exI [of _ "PageSize options"]) simp
  next
    case False
    then show ?thesis
      using FetchService_call_callerOptions [OF Inr False, of serviceName verb resourceName options]
      by (simp add: FetchService_loaded [OF Inr])
  qed
qed

text \<open>
  A list call for page 2, a call through the alias \<^verbatim>\<open>ls\<close>, and a list call with the format
  \<^verbatim>\<open>table\<close>: each changes a field of the struct of the caller.
\<close>

theorem caller_options_counterexample:
  "callerOptions (FetchService example_world ''identity'' ''list'' ''User''
     (example_options\<lparr>Page := 2, PageSize := 10\<rparr>)) =
   example_options\<lparr>Parameters := [''page=2'', ''page_size=10''], Page := 2, PageSize := 10\<rparr> \<and>
   callerOptions (FetchService example_world ''identity'' ''ls'' [] example_options) =
   example_options\<lparr>OutputFormat := ''table''\<rparr> \<and>
   callerOptions (FetchService example_world ''identity'' ''list'' ''User''
     (example_options\<lparr>OutputFormat := ''table''\<rparr>)) =
   example_options\<lparr>OutputFormat := ''table'', PageSize := 15\<rparr>"
  by code_simp

subsection \<open>The sort\<close>







end
